theory Spec2Isabelle
  imports Main "HOL-Library.Word"
begin

unbundle bit_operations_syntax

section \<open>Data model of the OSCORE packet transform\<close>

type_synonym byte = "8 word"

text \<open>
  The error codes of \<open>enum err\<close> that \<open>coap2oscore.c\<close> names, the kinds the
  specification names for the collaborators that live in other files, and \<open>other_err\<close>
  for every further code a collaborator may return. \<open>memory_fault\<close> is not a code of
  the program: it is the outcome of an execution that writes outside the array behind a
  pointer, which C leaves undefined.
\<close>

datatype err =
    not_valid_input_packet
  | oscore_valuelen_to_long_error
  | buffer_too_small
  | ssn_exhausted
  | malformed_packet
  | other_err nat
  | memory_fault

text \<open>
  \<open>struct o_coap_header\<close>, \<open>struct o_coap_option\<close>, \<open>struct oscore_option\<close> and
  \<open>struct o_coap_packet\<close>. Their declarations are in a header outside the sources
  at hand; the fields are the ones \<open>coap2oscore.c\<close> reads and writes. The casts of the
  source fix \<open>delta\<close> at 16 bits; \<open>len\<close> and \<open>option_number\<close> are taken at 16 bits
  too, which covers a narrower declaration (every value the code stores there comes from
  an 8-bit local). The value pointer of an option is the byte string it points at,
  \<open>None\<close> for \<open>NULL\<close>; \<open>token\<close> and \<open>payload\<close> with their length fields, and
  every \<open>struct byte_array\<close>, are byte lists whose length is the length field.
  The arrays \<open>options\<close>, \<open>e_options\<close> and \<open>u_options\<close> are the lists of their first
  \<open>options_cnt\<close> entries.
\<close>

record o_coap_header =
  hdr_ver :: byte
  hdr_type :: byte
  hdr_TKL :: byte
  hdr_code :: byte
  hdr_MID :: "16 word"

record o_coap_option =
  o_delta :: "16 word"
  o_len :: "16 word"
  o_value :: "byte list option"
  o_option_number :: "16 word"

record o_coap_packet =
  header :: o_coap_header
  token :: "byte list"
  options :: "o_coap_option list"
  payload :: "byte list"

definition options_cnt :: "o_coap_packet \<Rightarrow> nat" where
  "options_cnt p = length (options p)"

definition payload_len :: "o_coap_packet \<Rightarrow> 32 word" where
  "payload_len p = of_nat (length (payload p))"

text \<open>
  Modelled from the spec: the macros \<open>OBSERVE\<close> and \<open>OSCORE\<close> are defined outside the
  sources at hand. Section 6 gives the number 9 of the OSCORE option; Observe is option 6
  (RFC 7641).
\<close>

definition OBSERVE :: nat where "OBSERVE = 6"
definition OSCORE :: nat where "OSCORE = 9"

section \<open>\<open>inner_outer_option_split\<close>\<close>

text \<open>
  The locals of the loop and the output parameters, threaded through the iterations.
\<close>

record split_state =
  temp_option_nr :: byte
  temp_E_option_delta_sum :: byte
  temp_U_option_delta_sum :: byte
  e_opts :: "o_coap_option list"
  e_opts_len :: "16 word"
  U_opts :: "o_coap_option list"

text \<open>Lines 74-83: the extra bytes of an option header, from the input delta and length.\<close>

definition extra_bytes :: "16 word \<Rightarrow> byte" where
  "extra_bytes v = (if 13 < v \<and> v < 243 then 1 else if 243 \<le> v then 2 else 0)"

definition e_entry :: "split_state \<Rightarrow> 16 word \<Rightarrow> byte list option \<Rightarrow> o_coap_option" where
  "e_entry s l v =
     \<lparr> o_delta = ucast (temp_option_nr s) - ucast (temp_E_option_delta_sum s),
       o_len = l, o_value = v, o_option_number = ucast (temp_option_nr s) \<rparr>"

definition u_entry :: "split_state \<Rightarrow> 16 word \<Rightarrow> byte list option \<Rightarrow> o_coap_option" where
  "u_entry s l v =
     \<lparr> o_delta = ucast (temp_option_nr s) - ucast (temp_U_option_delta_sum s),
       o_len = l, o_value = v, o_option_number = ucast (temp_option_nr s) \<rparr>"

definition push_e :: "o_coap_option \<Rightarrow> split_state \<Rightarrow> split_state" where
  "push_e e s = s \<lparr> temp_E_option_delta_sum := temp_E_option_delta_sum s + ucast (o_delta e),
                   e_opts := e_opts s @ [e] \<rparr>"

definition push_u :: "o_coap_option \<Rightarrow> split_state \<Rightarrow> split_state" where
  "push_u u s = s \<lparr> temp_U_option_delta_sum := temp_U_option_delta_sum s + ucast (o_delta u),
                   U_opts := U_opts s @ [u] \<rparr>"

text \<open>One iteration of the \<open>for\<close> loop (lines 66-201) on the option \<open>opt\<close>.\<close>

definition split_step ::
  "bool \<Rightarrow> (16 word \<Rightarrow> bool) \<Rightarrow> o_coap_option \<Rightarrow> split_state \<Rightarrow> split_state" where
  "split_step request is_class_e opt s0 =
    (let delta_extra_bytes = extra_bytes (o_delta opt);
         len_extra_bytes = extra_bytes (o_len opt);
         s = s0 \<lparr> temp_option_nr := temp_option_nr s0 + ucast (o_delta opt) \<rparr>;
         temp_len = (ucast (o_len opt) :: byte);
         full = e_opts_len s + 1 + ucast delta_extra_bytes + ucast len_extra_bytes
                  + ucast temp_len
     in if unat (temp_option_nr s) = OBSERVE then
          (let s1 = (if request
                     then push_e (e_entry s (ucast temp_len) (o_value opt)) s
                            \<lparr> e_opts_len := full \<rparr>
                     else push_e (e_entry s 0 None) s
                            \<lparr> e_opts_len := e_opts_len s + 1 \<rparr>)
           in push_u (u_entry s1 (ucast temp_len) (o_value opt)) s1)
        else if is_class_e (ucast (temp_option_nr s)) then
          push_e (e_entry s (ucast temp_len) (o_value opt)) s \<lparr> e_opts_len := full \<rparr>
        else
          push_u (u_entry s (ucast temp_len) (o_value opt)) s)"

fun split_loop ::
  "bool \<Rightarrow> (16 word \<Rightarrow> bool) \<Rightarrow> o_coap_option list \<Rightarrow> split_state \<Rightarrow> split_state" where
  "split_loop request is_class_e [] s = s"
| "split_loop request is_class_e (opt # opts) s =
     split_loop request is_class_e opts (split_step request is_class_e opt s)"

definition split_init :: split_state where
  "split_init = \<lparr> temp_option_nr = 0, temp_E_option_delta_sum = 0,
                  temp_U_option_delta_sum = 0, e_opts = [], e_opts_len = 0,
                  U_opts = [] \<rparr>"

text \<open>
  The function itself, called as \<open>coap2oscore\<close> calls it: both counters start at 0.
  \<open>MAX_OPTION_COUNT\<close>, \<open>is_request\<close> and \<open>is_class_e\<close> are declared outside the sources
  at hand and are parameters. The result is the E list, the byte length of the E options
  and the U list.
\<close>

definition inner_outer_option_split ::
  "nat \<Rightarrow> (o_coap_packet \<Rightarrow> bool) \<Rightarrow> (16 word \<Rightarrow> bool) \<Rightarrow> o_coap_packet
     \<Rightarrow> err + (o_coap_option list \<times> 16 word \<times> o_coap_option list)" where
  "inner_outer_option_split MAX_OPTION_COUNT is_request is_class_e in_o_coap =
    (if MAX_OPTION_COUNT < options_cnt in_o_coap then Inl not_valid_input_packet
     else let s = split_loop (is_request in_o_coap) is_class_e (options in_o_coap) split_init
          in Inr (e_opts s, e_opts_len s, U_opts s))"

section \<open>Buffers\<close>

text \<open>
  A buffer is the list of its visible bytes (the first \<open>len\<close> bytes of a
  \<open>struct byte_array\<close>) together with the size \<open>cap\<close> of the array behind it.
  \<open>copy_into cap b off src\<close> stores \<open>src\<close> at offset \<open>off\<close>: bytes that land
  beyond the visible part but inside the array are not seen again, bytes beyond the array
  are a memory fault.
\<close>

definition copy_into :: "nat \<Rightarrow> byte list \<Rightarrow> nat \<Rightarrow> byte list \<Rightarrow> err + byte list" where
  "copy_into cap b off src =
     (if cap < off + length src then Inl memory_fault
      else Inr (take (length b) (take off b @ src @ drop (off + length src) b)))"

text \<open>
  Modelled from the spec: \<open>_memcpy_s\<close> (common/memcpy_s.h) is not part of the sources
  at hand. Section 5 makes exceeding a buffer an error, never a reallocation: the copy
  fails with \<open>buffer_too_small\<close> when the destination size is below the count, and
  copies otherwise. The destination is the buffer \<open>b\<close> at offset \<open>off\<close>.
\<close>

definition memcpy_s ::
  "nat \<Rightarrow> byte list \<Rightarrow> nat \<Rightarrow> 32 word \<Rightarrow> byte list \<Rightarrow> err + byte list" where
  "memcpy_s cap b off destSize src =
     (if destSize < of_nat (length src) then Inl buffer_too_small
      else copy_into cap b off src)"

text \<open>
  Modelled from the spec: the macro \<open>BYTE_ARRAY_NEW(NAME, BUF_SIZE, SIZE)\<close>
  (common/byte_array.h) is not part of the sources at hand. It declares an array of
  \<open>BUF_SIZE\<close> bytes and a byte array of \<open>SIZE\<close> bytes over it; by section 5 a size
  above the bound is an error.
\<close>

definition BYTE_ARRAY_NEW :: "nat \<Rightarrow> nat \<Rightarrow> err + unit" where
  "BYTE_ARRAY_NEW BUF_SIZE SIZE = (if BUF_SIZE < SIZE then Inl buffer_too_small else Inr ())"

text \<open>
  Modelled from the spec: \<open>check_buffer_size\<close> (common/memcpy_s.h) is not part of the
  sources at hand; by section 5 a required size above the bound is an error.
\<close>

definition check_buffer_size :: "nat \<Rightarrow> 32 word \<Rightarrow> err + unit" where
  "check_buffer_size is_size required_size =
     (if is_size < unat required_size then Inl buffer_too_small else Inr ())"

section \<open>\<open>plaintext_setup\<close>\<close>

text \<open>Lines 227-231: the bound on the serialized E options, accumulated in 16 bits.\<close>

fun e_opt_serial_len :: "o_coap_option list \<Rightarrow> 16 word \<Rightarrow> 16 word" where
  "e_opt_serial_len [] acc = acc"
| "e_opt_serial_len (e # es) acc = e_opt_serial_len es (acc + 1 + 2 + 2 + o_len e)"

text \<open>
  \<open>plaintext0\<close> is the byte array \<open>plaintext\<close> as \<open>coap2oscore\<close> declares it (its
  bytes are whatever the stack holds), \<open>MAX_PLAINTEXT_LEN\<close> the size of the array behind
  it. \<open>options_into_byte_string\<close> is declared outside the sources at hand: it is a
  parameter that receives the E options and the size of the buffer it may fill, and
  returns the serialized options.
\<close>

definition plaintext_setup ::
  "nat \<Rightarrow> nat \<Rightarrow> (o_coap_option list \<Rightarrow> 16 word \<Rightarrow> err + byte list)
     \<Rightarrow> o_coap_packet \<Rightarrow> o_coap_option list \<Rightarrow> byte list \<Rightarrow> err + byte list" where
  "plaintext_setup MAX_PLAINTEXT_LEN E_OPTIONS_BUFF_MAX_LEN options_into_byte_string
       in_o_coap E_options plaintext0 =
    (case copy_into MAX_PLAINTEXT_LEN plaintext0 0 [hdr_code (header in_o_coap)] of
       Inl e \<Rightarrow> Inl e
     | Inr p1 \<Rightarrow>
    (let serial_len = e_opt_serial_len E_options 0 in
     case BYTE_ARRAY_NEW E_OPTIONS_BUFF_MAX_LEN (unat serial_len) of
       Inl e \<Rightarrow> Inl e
     | Inr _ \<Rightarrow>
    (case options_into_byte_string E_options serial_len of
       Inl e \<Rightarrow> Inl e
     | Inr e_opt_serial \<Rightarrow>
    (case memcpy_s MAX_PLAINTEXT_LEN p1 1 (of_nat (length plaintext0) - 1) e_opt_serial of
       Inl e \<Rightarrow> Inl e
     | Inr p2 \<Rightarrow>
    (let off = 1 + length e_opt_serial in
     if payload_len in_o_coap \<noteq> 0 then
       (case copy_into MAX_PLAINTEXT_LEN p2 off [0xff] of
          Inl e \<Rightarrow> Inl e
        | Inr p3 \<Rightarrow>
            memcpy_s MAX_PLAINTEXT_LEN p3 (off + 1)
              (of_nat (length plaintext0) - of_nat (off + 1)) (payload in_o_coap))
     else Inr p2)))))"

section \<open>The OSCORE option\<close>

text \<open>
  Modelled from the spec: the masks \<open>COMP_OSCORE_OPT_KIDC_H_MASK\<close> and
  \<open>COMP_OSCORE_OPT_KID_K_MASK\<close> are defined outside the sources at hand. Section 4.2.5
  puts the length of the PIV in the low three bits, then the flag k, then the flag h, and
  scenario 1 of section 8 gives the first byte 0x09 for a request with a one-byte PIV.
\<close>

definition COMP_OSCORE_OPT_KIDC_H_MASK :: byte where "COMP_OSCORE_OPT_KIDC_H_MASK = 0x10"
definition COMP_OSCORE_OPT_KID_K_MASK :: byte where "COMP_OSCORE_OPT_KID_K_MASK = 0x08"

record oscore_option =
  oo_len :: byte
  oo_value :: "byte list option"
  oo_option_number :: "16 word"

definition get_oscore_opt_val_len :: "byte list \<Rightarrow> byte list \<Rightarrow> byte list \<Rightarrow> byte" where
  "get_oscore_opt_val_len piv kid kid_context =
    (let l = (of_nat (length piv + length kid_context + length kid) :: byte);
         l1 = (if l \<noteq> 0 then l + 1 else l)
     in if length kid_context \<noteq> 0 then l1 + 1 else l1)"

text \<open>\<open>value[0] |= m\<close> on the visible bytes of the option value.\<close>

definition or_flags :: "byte list \<Rightarrow> byte \<Rightarrow> byte list" where
  "or_flags v m = (case v of [] \<Rightarrow> [] | x # xs \<Rightarrow> (x OR m) # xs)"

text \<open>
  \<open>oscore_option_generate\<close> on an option whose \<open>len\<close> is already set and whose
  \<open>value\<close> points at \<open>buf\<close>, an array of \<open>OSCORE_OPT_VALUE_LEN\<close> bytes. The result is
  the new \<open>value\<close>: \<open>None\<close> for \<open>NULL\<close>, else the \<open>len\<close> bytes it points at. The
  second component of the intermediate pairs is the offset of \<open>temp_ptr\<close>. The
  \<open>memset\<close> of \<open>len\<close> bytes faults when \<open>len\<close> exceeds the array.
\<close>

definition gen_piv :: "nat \<Rightarrow> byte \<Rightarrow> byte list \<Rightarrow> byte list \<Rightarrow> err + (byte list \<times> nat)" where
  "gen_piv cap l piv v =
    (if length piv \<noteq> 0 then
       (case memcpy_s cap (or_flags v (of_nat (length piv))) 1 (ucast l - 1) piv of
          Inl e \<Rightarrow> Inl e
        | Inr v' \<Rightarrow> Inr (v', 1 + length piv))
     else Inr (v, 0))"

definition gen_kid_context ::
  "nat \<Rightarrow> byte \<Rightarrow> byte list \<Rightarrow> byte list \<times> nat \<Rightarrow> err + (byte list \<times> nat)" where
  "gen_kid_context cap l kid_context vo =
    (let (v, off) = vo in
     if length kid_context \<noteq> 0 then
       (case copy_into cap (or_flags v COMP_OSCORE_OPT_KIDC_H_MASK) off
               [of_nat (length kid_context)] of
          Inl e \<Rightarrow> Inl e
        | Inr v1 \<Rightarrow>
       (case memcpy_s cap v1 (off + 1) (ucast l - of_nat (off + 1)) kid_context of
          Inl e \<Rightarrow> Inl e
        | Inr v2 \<Rightarrow> Inr (v2, off + 1 + length kid_context)))
     else Inr (v, off))"

definition gen_kid :: "nat \<Rightarrow> byte \<Rightarrow> byte list \<Rightarrow> byte list \<times> nat \<Rightarrow> err + byte list" where
  "gen_kid cap l kid vo =
    (let (v, off) = vo; v1 = or_flags v COMP_OSCORE_OPT_KID_K_MASK in
     if length kid \<noteq> 0 then memcpy_s cap v1 off (ucast l - of_nat off) kid
     else Inr v1)"

definition oscore_option_generate ::
  "nat \<Rightarrow> byte list \<Rightarrow> byte list \<Rightarrow> byte list \<Rightarrow> byte \<Rightarrow> err + oscore_option" where
  "oscore_option_generate OSCORE_OPT_VALUE_LEN piv kid kid_context l =
    (if l = 0 then
       Inr \<lparr> oo_len = l, oo_value = None, oo_option_number = of_nat OSCORE \<rparr>
     else if OSCORE_OPT_VALUE_LEN < unat l then Inl memory_fault
     else
       (case gen_piv OSCORE_OPT_VALUE_LEN l piv (replicate (unat l) 0) of
          Inl e \<Rightarrow> Inl e
        | Inr vo1 \<Rightarrow>
       (case gen_kid_context OSCORE_OPT_VALUE_LEN l kid_context vo1 of
          Inl e \<Rightarrow> Inl e
        | Inr vo2 \<Rightarrow>
       (case gen_kid OSCORE_OPT_VALUE_LEN l kid vo2 of
          Inl e \<Rightarrow> Inl e
        | Inr v \<Rightarrow>
            Inr \<lparr> oo_len = l, oo_value = Some v, oo_option_number = of_nat OSCORE \<rparr>))))"

section \<open>\<open>oscore_pkg_generate\<close>\<close>

text \<open>
  Modelled from the spec: the code and type macros are defined outside the sources at hand.
  Section 4.2.6 names them: code 0.00, type ACK, and the codes POST, FETCH, Changed and
  Content, whose numbers are those of RFC 7252 and RFC 8132.
\<close>

definition CODE_EMPTY :: byte where "CODE_EMPTY = 0x00"
definition TYPE_ACK :: byte where "TYPE_ACK = 0x02"
definition CODE_REQ_POST :: byte where "CODE_REQ_POST = 0x02"
definition CODE_REQ_FETCH :: byte where "CODE_REQ_FETCH = 0x05"
definition CODE_RESP_CHANGED :: byte where "CODE_RESP_CHANGED = 0x44"
definition CODE_RESP_CONTENT :: byte where "CODE_RESP_CONTENT = 0x45"

text \<open>
  Modelled from the spec: \<open>is_observe\<close> (oscore/option.h) is not part of the sources
  at hand. By sections 4.2.5 and 4.2.6 a packet is "with observe" when an Observe option is
  among the options handed over.
\<close>

definition is_observe :: "o_coap_option list \<Rightarrow> bool" where
  "is_observe opts = list_ex (\<lambda>u. unat (o_option_number u) = OBSERVE) opts"

text \<open>Lines 429-436: the index of the first U option whose number is above \<open>OSCORE\<close>.\<close>

fun oscore_opt_pos :: "o_coap_option list \<Rightarrow> nat \<Rightarrow> nat" where
  "oscore_opt_pos [] i = i"
| "oscore_opt_pos (u # us) i =
     (if of_nat OSCORE < o_option_number u then i else oscore_opt_pos us (Suc i))"

text \<open>
  Lines 441-469: \<open>n\<close> iterations remain, \<open>i\<close> is the loop index, \<open>us\<close> the U options
  from \<open>u_opt_pos\<close> on. The loop runs \<open>u_options_cnt + 1\<close> times and reads exactly
  \<open>u_options_cnt\<close> U options, so the empty case of \<open>us\<close> is never reached from
  \<open>oscore_pkg_generate\<close>.
\<close>

fun merge_loop ::
  "nat \<Rightarrow> nat \<Rightarrow> nat \<Rightarrow> o_coap_option list \<Rightarrow> oscore_option \<Rightarrow> byte \<Rightarrow> o_coap_option list" where
  "merge_loop 0 i pos us oo temp_opt_number_sum = []"
| "merge_loop (Suc n) i pos us oo temp_opt_number_sum =
     (if i = pos then
        (let e = \<lparr> o_delta = oo_option_number oo - ucast temp_opt_number_sum,
                   o_len = ucast (oo_len oo), o_value = oo_value oo,
                   o_option_number = oo_option_number oo \<rparr>
         in e # merge_loop n (Suc i) pos us oo (temp_opt_number_sum + ucast (o_delta e)))
      else
        (case us of
           [] \<Rightarrow> []
         | u # us' \<Rightarrow>
            (let e = \<lparr> o_delta = o_option_number u - ucast temp_opt_number_sum,
                       o_len = o_len u, o_value = o_value u,
                       o_option_number = o_option_number u \<rparr>
             in e # merge_loop n (Suc i) pos us' oo
                      (temp_opt_number_sum + ucast (o_delta e)))))"

text \<open>
  \<open>out_oscore->options\<close> is an array of \<open>MAX_OPTION_COUNT\<close> entries: writing
  \<open>u_options_cnt + 1\<close> entries into it faults when they do not fit. \<open>in_ciphertext\<close>
  stands for the pointer with \<open>in_ciphertext_len\<close>.
\<close>

definition oscore_pkg_generate ::
  "nat \<Rightarrow> (o_coap_packet \<Rightarrow> bool) \<Rightarrow> o_coap_packet \<Rightarrow> o_coap_option list \<Rightarrow> byte list
     \<Rightarrow> oscore_option \<Rightarrow> err + o_coap_packet" where
  "oscore_pkg_generate MAX_OPTION_COUNT is_request in_o_coap u_options in_ciphertext oo =
    (let observe = is_observe u_options;
         code = (if is_request in_o_coap
                 then (if observe then CODE_REQ_FETCH else CODE_REQ_POST)
                 else (if observe then CODE_RESP_CONTENT else CODE_RESP_CHANGED));
         hdr = \<lparr> hdr_ver = hdr_ver (header in_o_coap), hdr_type = hdr_type (header in_o_coap),
                 hdr_TKL = hdr_TKL (header in_o_coap), hdr_code = code,
                 hdr_MID = hdr_MID (header in_o_coap) \<rparr>;
         pos = oscore_opt_pos u_options 0
     in if MAX_OPTION_COUNT < 1 + length u_options then Inl memory_fault
        else Inr \<lparr> header = hdr,
                   token = (if hdr_TKL hdr = 0 then [] else token in_o_coap),
                   options = merge_loop (1 + length u_options) 0 pos u_options oo 0,
                   payload = in_ciphertext \<rparr>)"

section \<open>\<open>coap2oscore\<close>\<close>

text \<open>
  \<open>struct context\<close> (here \<open>oscore_context\<close>) with the fields that
  \<open>coap2oscore\<close> uses: the sender context \<open>sc\<close>, the common context \<open>cc\<close> and
  the request-response context \<open>rrc\<close>. The sender sequence number is a 64-bit counter.
\<close>

record sender_context =
  sender_seq_num :: "64 word"
  sender_id :: "byte list"
  sender_key :: "byte list"

record common_context =
  common_iv :: "byte list"
  id_context :: "byte list"
  aead_alg :: int

record req_resp_context =
  nonce :: "byte list"
  request_kid :: "byte list"
  request_piv :: "byte list"
  echo_opt_val :: "byte list"
  reboot :: bool

record oscore_context =
  sc :: sender_context
  cc :: common_context
  rrc :: req_resp_context

text \<open>
  The functions and bounds that \<open>coap2oscore\<close> takes from other files, as parameters.
  A function that writes through a pointer into the context returns the new content next
  to its error code. \<open>stack_bytes i\<close> is the byte that a fresh array holds at index
  \<open>i\<close> before anything is written to it.
\<close>

record collaborators =
  MAX_OPTION_COUNT :: nat
  MAX_PLAINTEXT_LEN :: nat
  E_OPTIONS_BUFF_MAX_LEN :: nat
  MAX_PIV_LEN :: nat
  OSCORE_OPT_VALUE_LEN :: nat
  MAX_AAD_LEN :: nat
  AUTH_TAG_LEN :: nat
  MAX_CIPHERTEXT_LEN :: nat
  stack_bytes :: "nat \<Rightarrow> byte"
  buf2coap :: "byte list \<Rightarrow> err + o_coap_packet"
  is_request :: "o_coap_packet \<Rightarrow> bool"
  is_class_e :: "16 word \<Rightarrow> bool"
  options_into_byte_string :: "o_coap_option list \<Rightarrow> 16 word \<Rightarrow> err + byte list"
  sender_seq_num2piv :: "64 word \<Rightarrow> err + byte list"
  update_request_piv_request_kid ::
    "oscore_context \<Rightarrow> byte list \<Rightarrow> byte list \<Rightarrow> bool \<Rightarrow> (err + unit) \<times> oscore_context"
  cache_echo_val :: "byte list \<Rightarrow> o_coap_option list \<Rightarrow> (err + unit) \<times> byte list"
  create_nonce :: "byte list \<Rightarrow> byte list \<Rightarrow> byte list \<Rightarrow> byte list \<Rightarrow> (err + unit) \<times> byte list"
  create_aad :: "int \<Rightarrow> byte list \<Rightarrow> byte list \<Rightarrow> err + byte list"
  oscore_cose_encrypt ::
    "byte list \<Rightarrow> 32 word \<Rightarrow> byte list \<Rightarrow> byte list \<Rightarrow> byte list \<Rightarrow> err + byte list"
  coap2buf :: "o_coap_packet \<Rightarrow> nat \<Rightarrow> err + byte list"

primrec fresh_array :: "(nat \<Rightarrow> byte) \<Rightarrow> nat \<Rightarrow> byte list" where
  "fresh_array f 0 = []"
| "fresh_array f (Suc n) = fresh_array f n @ [f n]"

text \<open>The macro \<open>TRY\<close>: return the error at once, with the context as it is by then.\<close>

definition TRY :: "err + 'a \<Rightarrow> 'c \<Rightarrow> ('a \<Rightarrow> (err + 'b) \<times> 'c) \<Rightarrow> (err + 'b) \<times> 'c" where
  "TRY r c k = (case r of Inl e \<Rightarrow> (Inl e, c) | Inr v \<Rightarrow> k v)"

definition plaintext_encrypt ::
  "collaborators \<Rightarrow> oscore_context \<Rightarrow> byte list \<Rightarrow> byte list \<Rightarrow> 32 word \<Rightarrow> err + byte list" where
  "plaintext_encrypt X c aad in_plaintext out_ciphertext_len =
     oscore_cose_encrypt X in_plaintext out_ciphertext_len (nonce (rrc c)) aad
       (sender_key (sc c))"

text \<open>
  Lines 555-582, the branch that draws a partial IV. The post-increment of line 556 is
  stored in the context before \<open>sender_seq_num2piv\<close> runs on the old value;
  \<open>piv_rest\<close> is the branch from line 559 on, \<open>cache_echo_step\<close> and
  \<open>create_nonce_step\<close> are lines 563-567 and 570-571.
\<close>

definition cache_echo_step ::
  "collaborators \<Rightarrow> o_coap_option list \<Rightarrow> oscore_context \<Rightarrow> (err + unit) \<times> oscore_context" where
  "cache_echo_step X e_options c =
    (if reboot (rrc c) then
       (let (r, ev) = cache_echo_val X (echo_opt_val (rrc c)) e_options;
            c1 = c \<lparr> rrc := (rrc c) \<lparr> echo_opt_val := ev \<rparr> \<rparr>
        in TRY r c1 (\<lambda>_. (Inr (), c1 \<lparr> rrc := (rrc c1) \<lparr> reboot := False \<rparr> \<rparr>)))
     else (Inr (), c))"

definition create_nonce_step ::
  "collaborators \<Rightarrow> byte list \<Rightarrow> oscore_context \<Rightarrow> (err + unit) \<times> oscore_context" where
  "create_nonce_step X piv c =
    (let (r, n) = create_nonce X (sender_id (sc c)) piv (common_iv (cc c)) (nonce (rrc c))
     in (r, c \<lparr> rrc := (rrc c) \<lparr> nonce := n \<rparr> \<rparr>))"

definition piv_rest ::
  "collaborators \<Rightarrow> bool \<Rightarrow> o_coap_option list \<Rightarrow> byte list \<Rightarrow> oscore_context
     \<Rightarrow> (err + oscore_option) \<times> oscore_context" where
  "piv_rest X request e_options piv c1 =
    (let (r2, c2) = update_request_piv_request_kid X c1 piv (sender_id (sc c1)) request in
    TRY r2 c2 (\<lambda>_.
    let (r3, c3) = cache_echo_step X e_options c2 in
    TRY r3 c3 (\<lambda>_.
    let (r4, c4) = create_nonce_step X piv c3 in
    TRY r4 c4 (\<lambda>_.
    let l = get_oscore_opt_val_len piv (sender_id (sc c4)) (id_context (cc c4)) in
    if OSCORE_OPT_VALUE_LEN X < unat l then (Inl oscore_valuelen_to_long_error, c4)
    else (oscore_option_generate (OSCORE_OPT_VALUE_LEN X) piv (sender_id (sc c4))
            (id_context (cc c4)) l, c4)))))"

definition piv_branch ::
  "collaborators \<Rightarrow> bool \<Rightarrow> o_coap_option list \<Rightarrow> oscore_context
     \<Rightarrow> (err + oscore_option) \<times> oscore_context" where
  "piv_branch X request e_options c =
    TRY (BYTE_ARRAY_NEW (MAX_PIV_LEN X) (MAX_PIV_LEN X)) c (\<lambda>_.
    let ssn = sender_seq_num (sc c);
        c1 = c \<lparr> sc := (sc c) \<lparr> sender_seq_num := ssn + 1 \<rparr> \<rparr> in
    TRY (sender_seq_num2piv X ssn) c1 (\<lambda>piv.
    piv_rest X request e_options piv c1))"

text \<open>
  Lines 553-586: the OSCORE option of the outgoing packet.
\<close>

definition oscore_option_stage ::
  "collaborators \<Rightarrow> o_coap_packet \<Rightarrow> o_coap_option list \<Rightarrow> o_coap_option list \<Rightarrow> oscore_context
     \<Rightarrow> (err + oscore_option) \<times> oscore_context" where
  "oscore_option_stage X o_coap_pkt e_options u_options c =
    (let request = is_request X o_coap_pkt in
     if request \<or> is_observe u_options \<or> reboot (rrc c)
     then piv_branch X request e_options c
     else (Inr \<lparr> oo_len = 0, oo_value = None, oo_option_number = of_nat OSCORE \<rparr>, c))"

text \<open>Lines 588-607: AAD, encryption, outer packet, serialization.\<close>

definition protect_stage ::
  "collaborators \<Rightarrow> o_coap_packet \<Rightarrow> o_coap_option list \<Rightarrow> byte list \<Rightarrow> nat
     \<Rightarrow> oscore_option \<Rightarrow> oscore_context \<Rightarrow> (err + byte list) \<times> oscore_context" where
  "protect_stage X o_coap_pkt u_options plaintext buf_oscore_len oo c =
    TRY (BYTE_ARRAY_NEW (MAX_AAD_LEN X) (MAX_AAD_LEN X)) c (\<lambda>_.
    TRY (create_aad X (aead_alg (cc c)) (request_kid (rrc c)) (request_piv (rrc c))) c (\<lambda>aad.
    let ciphertext_len = (of_nat (length plaintext) + of_nat (AUTH_TAG_LEN X) :: 32 word) in
    TRY (check_buffer_size (MAX_CIPHERTEXT_LEN X) ciphertext_len) c (\<lambda>_.
    TRY (plaintext_encrypt X c aad plaintext ciphertext_len) c (\<lambda>ciphertext.
    TRY (oscore_pkg_generate (MAX_OPTION_COUNT X) (is_request X) o_coap_pkt u_options
           ciphertext oo) c (\<lambda>oscore_pkt.
    (coap2buf X oscore_pkt buf_oscore_len, c))))))"

text \<open>
  Lines 518-542: the option split and the plaintext. The result is the E list, the U list
  and the plaintext.
\<close>

definition plaintext_stage ::
  "collaborators \<Rightarrow> o_coap_packet
     \<Rightarrow> err + (o_coap_option list \<times> o_coap_option list \<times> byte list)" where
  "plaintext_stage X o_coap_pkt =
    (case inner_outer_option_split (MAX_OPTION_COUNT X) (is_request X) (is_class_e X)
            o_coap_pkt of
       Inl e \<Rightarrow> Inl e
     | Inr (e_options, e_options_len, u_options) \<Rightarrow>
    (let plaintext_len0 = (1 + ucast e_options_len :: 32 word);
         plaintext_len = (if payload_len o_coap_pkt \<noteq> 0
                          then plaintext_len0 + 1 + payload_len o_coap_pkt
                          else plaintext_len0) in
     case BYTE_ARRAY_NEW (MAX_PLAINTEXT_LEN X) (unat plaintext_len) of
       Inl e \<Rightarrow> Inl e
     | Inr _ \<Rightarrow>
    (case plaintext_setup (MAX_PLAINTEXT_LEN X) (E_OPTIONS_BUFF_MAX_LEN X)
            (options_into_byte_string X) o_coap_pkt e_options
            (fresh_array (stack_bytes X) (unat plaintext_len)) of
       Inl e \<Rightarrow> Inl e
     | Inr plaintext \<Rightarrow> Inr (e_options, u_options, plaintext))))"

text \<open>
  \<open>coap2oscore\<close>: \<open>buf_o_coap\<close> is the input buffer with its length,
  \<open>buf_oscore_len\<close> the size of the output buffer, \<open>c\<close> the context. The result is
  the error code or the bytes written to \<open>buf_oscore\<close>, and the context after the call.
\<close>

definition coap2oscore ::
  "collaborators \<Rightarrow> byte list \<Rightarrow> nat \<Rightarrow> oscore_context \<Rightarrow> (err + byte list) \<times> oscore_context" where
  "coap2oscore X buf_o_coap buf_oscore_len c =
    TRY (buf2coap X buf_o_coap) c (\<lambda>o_coap_pkt.
    if CODE_EMPTY = hdr_code (header o_coap_pkt) \<and> TYPE_ACK = hdr_type (header o_coap_pkt)
    then (memcpy_s buf_oscore_len (fresh_array (stack_bytes X) (length buf_o_coap)) 0
            (of_nat (length buf_o_coap)) buf_o_coap, c)
    else
    TRY (plaintext_stage X o_coap_pkt) c (\<lambda>(e_options, u_options, plaintext).
    let (r, c1) = oscore_option_stage X o_coap_pkt e_options u_options c in
    TRY r c1 (\<lambda>oo.
    protect_stage X o_coap_pkt u_options plaintext buf_oscore_len oo c1)))"

section \<open>EDHOC: the input of transcript hash 3 and the associated data\<close>

text \<open>
  Modelled from the spec: the CBOR codec (\<open>cbor_encode.h\<close>: \<open>cbor_state_t\<close>,
  \<open>new_state\<close>, \<open>bstrx_encode\<close>) is outside the sources at hand and, by section 1,
  outside the core. A string is encoded with definite length: the head carries the major
  type and the length in the shortest form, the bytes follow. The state is the bytes written
  so far and the offset of \<open>payload_end\<close>; an item that does not fit fails.
\<close>

definition cbor_head :: "nat \<Rightarrow> nat \<Rightarrow> byte list" where
  "cbor_head major v =
    (if v < 24 then [of_nat (32 * major + v)]
     else if v < 256 then [of_nat (32 * major + 24), of_nat v]
     else if v < 65536 then [of_nat (32 * major + 25), of_nat (v div 256), of_nat v]
     else [of_nat (32 * major + 26), of_nat (v div 16777216), of_nat (v div 65536),
           of_nat (v div 256), of_nat v])"

definition cbor_bstr :: "byte list \<Rightarrow> byte list" where
  "cbor_bstr s = cbor_head 2 (length s) @ s"

definition cbor_tstr :: "byte list \<Rightarrow> byte list" where
  "cbor_tstr s = cbor_head 3 (length s) @ s"

record cbor_state =
  cs_payload :: "byte list"
  cs_payload_end :: nat

definition new_state :: "nat \<Rightarrow> cbor_state" where
  "new_state payload_length = \<lparr> cs_payload = [], cs_payload_end = payload_length \<rparr>"

definition bstrx_encode :: "cbor_state \<Rightarrow> byte list \<Rightarrow> bool \<times> cbor_state" where
  "bstrx_encode state s =
    (if cs_payload_end state < length (cs_payload state) + length (cbor_bstr s)
     then (False, state)
     else (True, state \<lparr> cs_payload := cs_payload state @ cbor_bstr s \<rparr>))"

text \<open>\<open>struct th3\<close>, as \<open>encode_th3\<close> reads it.\<close>

record th3 =
  th3_th_2 :: "byte list"
  th3_CIPHERTEXT_2 :: "byte list"

definition encode_th3 :: "cbor_state \<Rightarrow> th3 \<Rightarrow> bool \<times> cbor_state" where
  "encode_th3 state input =
    (let (r1, s1) = bstrx_encode state (th3_th_2 input) in
     if r1 then bstrx_encode s1 (th3_CIPHERTEXT_2 input) else (False, s1))"

text \<open>
  \<open>cbor_encode_th3\<close>, with \<open>payload_length\<close> for the parameter \<open>payload_len\<close>: the result, the value stored in \<open>*payload_len_out\<close> (\<open>None\<close>
  when nothing is stored) and the bytes written to \<open>payload\<close>.
\<close>

definition cbor_encode_th3 :: "nat \<Rightarrow> th3 \<Rightarrow> bool \<times> nat option \<times> byte list" where
  "cbor_encode_th3 payload_length input =
    (let (ret, st) = encode_th3 (new_state payload_length) input in
     (ret, if ret then Some (min payload_length (length (cs_payload st))) else None,
      cs_payload st))"

text \<open>
  The reading of section 4.3.2, for comparison: the hash input of \<open>TH_3\<close> is the CBOR
  encoding of the three items \<open>TH_2\<close>, \<open>PLAINTEXT_2\<close> and \<open>CRED_R\<close>, in this order.
\<close>

definition th3_input_spec :: "byte list \<Rightarrow> byte list \<Rightarrow> byte list \<Rightarrow> byte list" where
  "th3_input_spec TH_2 PLAINTEXT_2 CRED_R =
     cbor_bstr TH_2 @ cbor_bstr PLAINTEXT_2 @ cbor_bstr CRED_R"

datatype edhoc_error = cbor_encoding_error

text \<open>
  Modelled from the spec: \<open>cose_enc_structure_encode\<close> (cose.h) is not part of the sources
  at hand. By section 4.2.4 the \<open>Enc_structure\<close> is the CBOR array of the context text
  string, the protected header as a byte string and the external AAD as a byte string;
  \<open>out_len\<close> is the size of \<open>out\<close>, and an encoding that does not fit is an error.
\<close>

definition cose_enc_structure_encode ::
  "byte list \<Rightarrow> byte list \<Rightarrow> byte list \<Rightarrow> nat \<Rightarrow> edhoc_error + byte list" where
  "cose_enc_structure_encode context_bytes protected external_aad out_len =
    (let e = cbor_head 4 3 @ cbor_tstr context_bytes @ cbor_bstr protected
               @ cbor_bstr external_aad
     in if out_len < length e then Inl cbor_encoding_error else Inr e)"

definition ascii :: "string \<Rightarrow> byte list" where
  "ascii cs = map (\<lambda>ch. of_nat (of_char ch)) cs"

text \<open>The array \<open>context_str\<close> with its terminating zero, and \<open>strlen\<close> on it.\<close>

definition context_str :: "byte list" where
  "context_str = ascii ''Encrypt0'' @ [0]"

definition strlen :: "byte list \<Rightarrow> nat" where
  "strlen s = length (takeWhile (\<lambda>b. b \<noteq> 0) s)"

text \<open>
  \<open>associated_data_encode\<close>: \<open>thX\<close> with \<open>thX_len\<close> is a byte list, the protected
  header is \<open>NULL\<close> with length 0.
\<close>

definition associated_data_encode :: "byte list \<Rightarrow> nat \<Rightarrow> edhoc_error + byte list" where
  "associated_data_encode thX out_len =
     cose_enc_structure_encode (take (strlen context_str) context_str) [] thX out_len"

section \<open>Reference points of the specification\<close>

text \<open>
  The absolute option numbers of the wire options, without any reduction: the running sum
  of the deltas, starting from \<open>n\<close>.
\<close>

fun abs_numbers :: "nat \<Rightarrow> o_coap_option list \<Rightarrow> nat list" where
  "abs_numbers n [] = []"
| "abs_numbers n (opt # opts) =
     (n + unat (o_delta opt)) # abs_numbers (n + unat (o_delta opt)) opts"

text \<open>
  The deltas of a list of option numbers when the previous number is kept in 8 bits.
\<close>

fun rebuilt_deltas :: "byte \<Rightarrow> 16 word list \<Rightarrow> 16 word list" where
  "rebuilt_deltas prev [] = []"
| "rebuilt_deltas prev (n # ns) = (n - ucast prev) # rebuilt_deltas (ucast n) ns"

text \<open>
  An option whose absolute number is \<open>n\<close> is put in the E list, or in the U list, when
  its number reduced modulo 256 is classified so by \<open>class_e\<close> (Observe goes in both).
\<close>

definition goes_E :: "(16 word \<Rightarrow> bool) \<Rightarrow> nat \<Rightarrow> bool" where
  "goes_E class_e n = (n mod 256 = OBSERVE \<or> class_e (of_nat (n mod 256)))"

definition goes_U :: "(16 word \<Rightarrow> bool) \<Rightarrow> nat \<Rightarrow> bool" where
  "goes_U class_e n = (n mod 256 = OBSERVE \<or> \<not> class_e (of_nat (n mod 256)))"

text \<open>
  A packet is with observe, on option numbers reduced modulo 256, when one of its absolute
  option numbers is 6 modulo 256.
\<close>

definition observe_mod_256 :: "o_coap_option list \<Rightarrow> bool" where
  "observe_mod_256 opts = list_ex (\<lambda>n. n mod 256 = OBSERVE) (abs_numbers 0 opts)"

text \<open>
  The number of bytes of an option header after its first byte, by the rule of section
  4.1: a delta or length of 13 up to 268 takes one more byte, of 269 or more two.
\<close>

definition coap_extra_bytes :: "nat \<Rightarrow> nat" where
  "coap_extra_bytes v = (if v < 13 then 0 else if v < 269 then 1 else 2)"

text \<open>Section 3: the upper bound of the sender sequence number.\<close>

definition MAX_SSN :: nat where "MAX_SSN = 2 ^ 40 - 1"

text \<open>
  Modelled from the spec: \<open>sender_seq_num2piv\<close> is not part of the sources at hand. By
  section 4.2.6 and the boundary cases of section 8 a sender sequence number up to
  \<open>MAX_SSN\<close> gives a partial IV, and one above it fails with \<open>ssn_exhausted\<close>. The
  partial IV is the number in at most five bytes, most significant first, without leading
  zero bytes (one zero byte for 0).
\<close>

definition sender_seq_num2piv_spec :: "64 word \<Rightarrow> err + byte list" where
  "sender_seq_num2piv_spec ssn =
    (let n = unat ssn in
     if MAX_SSN < n then Inl ssn_exhausted
     else Inr (dropWhile (\<lambda>b. b = 0)
                 [of_nat (n div 4294967296), of_nat (n div 16777216), of_nat (n div 65536),
                  of_nat (n div 256)] @ [of_nat n]))"

section \<open>A reference instance of the collaborators\<close>

text \<open>
  Modelled from the spec: the CoAP parser and serializer (\<open>buf2coap\<close>, \<open>coap2buf\<close>,
  \<open>options_into_byte_string\<close>) are not part of the sources at hand. Section 4.1 gives the
  wire format: a four-byte header with version 1 and a token length of at most 8, the
  token, the options with their delta and length nibbles (13: one more byte plus 13, 14:
  two more bytes plus 269, 15 reserved), and the payload after the marker 0xFF, which is
  there only before a non-empty payload. A violation is \<open>malformed_packet\<close>.
\<close>

definition opt_ext :: "nat \<Rightarrow> byte list \<Rightarrow> err + (nat \<times> byte list)" where
  "opt_ext nib bs =
    (if nib < 13 then Inr (nib, bs)
     else if nib = 13 then
       (case bs of b # r \<Rightarrow> Inr (unat b + 13, r) | _ \<Rightarrow> Inl malformed_packet)
     else if nib = 14 then
       (case bs of b1 # b2 # r \<Rightarrow> Inr (unat b1 * 256 + unat b2 + 269, r)
                 | _ \<Rightarrow> Inl malformed_packet)
     else Inl malformed_packet)"

fun parse_options ::
  "nat \<Rightarrow> nat \<Rightarrow> byte list \<Rightarrow> err + (o_coap_option list \<times> byte list)" where
  "parse_options 0 prev bs = (if bs = [] then Inr ([], []) else Inl malformed_packet)"
| "parse_options (Suc fuel) prev [] = Inr ([], [])"
| "parse_options (Suc fuel) prev (b # bs) =
    (if b = 0xFF then (if bs = [] then Inl malformed_packet else Inr ([], bs))
     else
      (case opt_ext (unat (drop_bit 4 b)) bs of
         Inl e \<Rightarrow> Inl e
       | Inr (d, bs1) \<Rightarrow>
      (case opt_ext (unat (b AND 15)) bs1 of
         Inl e \<Rightarrow> Inl e
       | Inr (l, bs2) \<Rightarrow>
          if length bs2 < l then Inl malformed_packet
          else
           (case parse_options fuel (prev + d) (drop l bs2) of
              Inl e \<Rightarrow> Inl e
            | Inr (opts, pl) \<Rightarrow>
                Inr (\<lparr> o_delta = of_nat d, o_len = of_nat l, o_value = Some (take l bs2),
                       o_option_number = of_nat (prev + d) \<rparr> # opts, pl)))))"

definition buf2coap_spec :: "byte list \<Rightarrow> err + o_coap_packet" where
  "buf2coap_spec buf =
    (case buf of
       b0 # c # m1 # m2 # rest \<Rightarrow>
         (let tkl = b0 AND 15 in
          if drop_bit 6 b0 = 1 \<and> tkl \<le> 8 \<and> unat tkl \<le> length rest
          then
            (case parse_options (length rest) 0 (drop (unat tkl) rest) of
               Inl e \<Rightarrow> Inl e
             | Inr (opts, pl) \<Rightarrow>
                 Inr \<lparr> header = \<lparr> hdr_ver = drop_bit 6 b0, hdr_type = drop_bit 4 b0 AND 3,
                                   hdr_TKL = tkl, hdr_code = c,
                                   hdr_MID = push_bit 8 (ucast m1) OR ucast m2 \<rparr>,
                        token = take (unat tkl) rest, options = opts, payload = pl \<rparr>)
          else Inl malformed_packet)
     | _ \<Rightarrow> Inl malformed_packet)"

definition opt_nibble :: "nat \<Rightarrow> nat \<times> byte list" where
  "opt_nibble v =
    (if v < 13 then (v, [])
     else if v < 269 then (13, [of_nat (v - 13)])
     else (14, [of_nat ((v - 269) div 256), of_nat (v - 269)]))"

definition serialize_option :: "o_coap_option \<Rightarrow> byte list" where
  "serialize_option opt =
    (let (dn, dx) = opt_nibble (unat (o_delta opt));
         (ln, lx) = opt_nibble (unat (o_len opt))
     in [of_nat (16 * dn + ln)] @ dx @ lx
          @ take (unat (o_len opt)) (case o_value opt of None \<Rightarrow> [] | Some v \<Rightarrow> v))"

definition options_into_byte_string_spec :: "o_coap_option list \<Rightarrow> 16 word \<Rightarrow> err + byte list" where
  "options_into_byte_string_spec opts cap =
    (let bs = concat (map serialize_option opts)
     in if unat cap < length bs then Inl buffer_too_small else Inr bs)"

definition coap2buf_spec :: "o_coap_packet \<Rightarrow> nat \<Rightarrow> err + byte list" where
  "coap2buf_spec pkt cap =
    (let h = header pkt;
         bs = [push_bit 6 (hdr_ver h) OR push_bit 4 (hdr_type h) OR hdr_TKL h, hdr_code h,
               ucast (drop_bit 8 (hdr_MID h)), ucast (hdr_MID h)]
              @ token pkt @ concat (map serialize_option (options pkt))
              @ (if payload pkt = [] then [] else 0xFF # payload pkt)
     in if cap < length bs then Inl buffer_too_small else Inr bs)"

text \<open>
  Modelled from the spec: \<open>is_request\<close> and \<open>is_class_e\<close> are not part of the sources
  at hand. A request is a packet whose code has class 0. By sections 3 and 6 the OSCORE
  option is outer only; the other outer-only numbers are those of RFC 8613 (Uri-Host 3,
  Uri-Port 7, Proxy-Uri 35, Proxy-Scheme 39), and every other number is class E.
\<close>

definition is_request_spec :: "o_coap_packet \<Rightarrow> bool" where
  "is_request_spec p = (hdr_code (header p) AND 0xE0 = 0)"

definition is_class_e_spec :: "16 word \<Rightarrow> bool" where
  "is_class_e_spec n = (n \<noteq> 3 \<and> n \<noteq> 7 \<and> n \<noteq> 9 \<and> n \<noteq> 35 \<and> n \<noteq> 39)"

text \<open>
  Modelled from the spec: by section 3 the request's partial IV and kid are cached in the
  request-response state; by section 3 and scenario 5 the ECHO option (number 252) of the
  first packet after reboot is kept.
\<close>

definition update_request_piv_request_kid_spec ::
  "oscore_context \<Rightarrow> byte list \<Rightarrow> byte list \<Rightarrow> bool \<Rightarrow> (err + unit) \<times> oscore_context" where
  "update_request_piv_request_kid_spec c piv kid request =
    (Inr (), if request then c \<lparr> rrc := (rrc c) \<lparr> request_piv := piv, request_kid := kid \<rparr> \<rparr>
             else c)"

definition cache_echo_val_spec ::
  "byte list \<Rightarrow> o_coap_option list \<Rightarrow> (err + unit) \<times> byte list" where
  "cache_echo_val_spec ev e_options =
    (case filter (\<lambda>e. o_option_number e = 252) e_options of
       [] \<Rightarrow> (Inl (other_err 0), ev)
     | e # _ \<Rightarrow> (Inr (), take (unat (o_len e)) (case o_value e of None \<Rightarrow> [] | Some v \<Rightarrow> v)))"

text \<open>
  Modelled from the spec: section 4.2.3, for a nonce of the length of the common IV: the
  length of the id, the id padded with zeros on the left, the partial IV padded to five
  bytes, the whole XOR-ed with the common IV.
\<close>

definition pad_left :: "nat \<Rightarrow> byte list \<Rightarrow> byte list" where
  "pad_left n bs = replicate (n - length bs) 0 @ bs"

definition create_nonce_spec ::
  "byte list \<Rightarrow> byte list \<Rightarrow> byte list \<Rightarrow> byte list \<Rightarrow> (err + unit) \<times> byte list" where
  "create_nonce_spec id_bytes piv iv old =
    (if length iv < 6 \<or> length iv - 6 < length id_bytes \<or> 5 < length piv
     then (Inl (other_err 1), old)
     else (Inr (), map2 (XOR) ([of_nat (length id_bytes)] @ pad_left (length iv - 6) id_bytes
                                 @ pad_left 5 piv) iv))"

text \<open>
  Modelled from the spec: section 4.2.4, the external AAD
  \<open>[1, [aead_alg], request_kid, request_piv, h'']\<close> inside the \<open>Enc_structure\<close>.
\<close>

definition cbor_int :: "int \<Rightarrow> byte list" where
  "cbor_int i = (if 0 \<le> i then cbor_head 0 (nat i) else cbor_head 1 (nat (- 1 - i)))"

definition create_aad_spec :: "nat \<Rightarrow> int \<Rightarrow> byte list \<Rightarrow> byte list \<Rightarrow> err + byte list" where
  "create_aad_spec max_len alg kid piv =
    (let ext = cbor_head 4 5 @ cbor_int 1 @ cbor_head 4 1 @ cbor_int alg @ cbor_bstr kid
                 @ cbor_bstr piv @ cbor_bstr [];
         e = cbor_head 4 3 @ cbor_tstr (ascii ''Encrypt0'') @ cbor_bstr [] @ cbor_bstr ext
     in if max_len < length e then Inl buffer_too_small else Inr e)"

text \<open>
  The AEAD is a primitive outside the core (section 1). \<open>seal_stub\<close> stands in for it
  where a concrete run is needed: it returns the plaintext followed by a tag of zeros, of
  the length asked for.
\<close>

definition seal_stub ::
  "byte list \<Rightarrow> 32 word \<Rightarrow> byte list \<Rightarrow> byte list \<Rightarrow> byte list \<Rightarrow> err + byte list" where
  "seal_stub pt out_len nce aad key =
    (if unat out_len < length pt then Inl buffer_too_small
     else Inr (pt @ replicate (unat out_len - length pt) 0))"

text \<open>
  The reference instance, with sample bounds (\<open>MAX_PIV_LEN = 5\<close> is from section 5) and
  fresh arrays filled with zeros.
\<close>

definition ref_collab :: collaborators where
  "ref_collab =
    \<lparr> MAX_OPTION_COUNT = 20, MAX_PLAINTEXT_LEN = 1024, E_OPTIONS_BUFF_MAX_LEN = 255,
      MAX_PIV_LEN = 5, OSCORE_OPT_VALUE_LEN = 32, MAX_AAD_LEN = 35, AUTH_TAG_LEN = 8,
      MAX_CIPHERTEXT_LEN = 1032,
      stack_bytes = (\<lambda>i. 0),
      buf2coap = buf2coap_spec,
      is_request = is_request_spec,
      is_class_e = is_class_e_spec,
      options_into_byte_string = options_into_byte_string_spec,
      sender_seq_num2piv = sender_seq_num2piv_spec,
      update_request_piv_request_kid = update_request_piv_request_kid_spec,
      cache_echo_val = cache_echo_val_spec,
      create_nonce = create_nonce_spec,
      create_aad = create_aad_spec 35,
      oscore_cose_encrypt = seal_stub,
      coap2buf = coap2buf_spec \<rparr>"

text \<open>
  Contexts for the concrete runs: the identifiers and the common IV of RFC 8613, appendix
  C.1 (client, and server with sender id 01), with the key material left out.
\<close>

definition ctx0 :: oscore_context where
  "ctx0 =
    \<lparr> sc = \<lparr> sender_seq_num = 20, sender_id = [], sender_key = [] \<rparr>,
      cc = \<lparr> common_iv = [0x46, 0x22, 0xd4, 0xdd, 0x6d, 0x94, 0x41, 0x68, 0xee, 0xfb, 0x54,
                           0x98, 0x7c],
             id_context = [], aead_alg = 10 \<rparr>,
      rrc = \<lparr> nonce = [], request_kid = [], request_piv = [], echo_opt_val = [],
              reboot = False \<rparr> \<rparr>"

definition server_ctx :: oscore_context where
  "server_ctx = ctx0 \<lparr> sc := \<lparr> sender_seq_num = 20, sender_id = [0x01], sender_key = [] \<rparr> \<rparr>"

text \<open>
  The invariant of the split loop: each list holds the deltas rebuilt from its numbers, and
  each delta sum is the last number of its list in 8 bits.
\<close>

definition split_inv :: "split_state \<Rightarrow> bool" where
  "split_inv s \<longleftrightarrow>
     map o_delta (e_opts s) = rebuilt_deltas 0 (map o_option_number (e_opts s)) \<and>
     map o_delta (U_opts s) = rebuilt_deltas 0 (map o_option_number (U_opts s)) \<and>
     temp_E_option_delta_sum s =
       (if e_opts s = [] then 0 else ucast (o_option_number (last (e_opts s)))) \<and>
     temp_U_option_delta_sum s =
       (if U_opts s = [] then 0 else ucast (o_option_number (last (U_opts s))))"

text \<open>
  Concrete packets: the GET request of RFC 8613, appendix C.4 (token, Uri-Host
  \<open>localhost\<close>, Uri-Path \<open>tv1\<close>); a 2.05 notification with Observe 42 and a
  two-byte payload; an empty ACK; a GET whose only option is a Uri-Path of 13 bytes; and a
  GET with one option whose delta is 262.
\<close>

definition get_request :: "byte list" where
  "get_request = [0x44, 0x01, 0x5d, 0x1f, 0x00, 0x00, 0x39, 0x74, 0x39, 0x6c, 0x6f, 0x63, 0x61,
                  0x6c, 0x68, 0x6f, 0x73, 0x74, 0x83, 0x74, 0x76, 0x31]"

definition observe_notification :: "byte list" where
  "observe_notification = [0x64, 0x45, 0x5d, 0x1f, 0x00, 0x00, 0x39, 0x74, 0x61, 0x2a, 0xff,
                           0x48, 0x65]"

definition empty_ack :: "byte list" where
  "empty_ack = [0x60, 0x00, 0x5d, 0x1f]"

definition uri_path_13 :: "byte list" where
  "uri_path_13 = [0x40, 0x01, 0x5d, 0x1f, 0xbd, 0x00, 0x61, 0x62, 0x63, 0x64, 0x65, 0x66, 0x67,
                  0x68, 0x69, 0x6a, 0x6b, 0x6c, 0x6d]"


text \<open>The packets that \<open>get_request\<close> and \<open>observe_notification\<close> parse to.\<close>

definition get_request_pkt :: o_coap_packet where
  "get_request_pkt =
    \<lparr> header = \<lparr> hdr_ver = 1, hdr_type = 0, hdr_TKL = 4, hdr_code = 0x01, hdr_MID = 0x5d1f \<rparr>,
      token = [0x00, 0x00, 0x39, 0x74],
      options = [\<lparr> o_delta = 3, o_len = 9,
                   o_value = Some [0x6c, 0x6f, 0x63, 0x61, 0x6c, 0x68, 0x6f, 0x73, 0x74],
                   o_option_number = 3 \<rparr>,
                 \<lparr> o_delta = 8, o_len = 3, o_value = Some [0x74, 0x76, 0x31],
                   o_option_number = 11 \<rparr>],
      payload = [] \<rparr>"

definition observe_notification_pkt :: o_coap_packet where
  "observe_notification_pkt =
    \<lparr> header = \<lparr> hdr_ver = 1, hdr_type = 2, hdr_TKL = 4, hdr_code = 0x45, hdr_MID = 0x5d1f \<rparr>,
      token = [0x00, 0x00, 0x39, 0x74],
      options = [\<lparr> o_delta = 6, o_len = 1, o_value = Some [42], o_option_number = 6 \<rparr>],
      payload = [0x48, 0x65] \<rparr>"




definition numbers_3_262_295_pkt :: o_coap_packet where
  "numbers_3_262_295_pkt =
    \<lparr> header = \<lparr> hdr_ver = 1, hdr_type = 0, hdr_TKL = 0, hdr_code = 0x01, hdr_MID = 0x5d1f \<rparr>,
      token = [],
      options = [\<lparr> o_delta = 3, o_len = 1, o_value = Some [0x61], o_option_number = 3 \<rparr>,
                 \<lparr> o_delta = 259, o_len = 1, o_value = Some [7], o_option_number = 262 \<rparr>,
                 \<lparr> o_delta = 33, o_len = 1, o_value = Some [0x62], o_option_number = 295 \<rparr>],
      payload = [] \<rparr>"


section \<open>Auxiliary facts\<close>

subsection \<open>Words and arrays\<close>

lemma replicate_num: "replicate (numeral k) x = x # replicate (pred_numeral k) x"
  by (simp add: numeral_eq_Suc)

lemma fresh_array_num:
  "fresh_array f (numeral k) = fresh_array f (pred_numeral k) @ [f (pred_numeral k)]"
  by (simp add: numeral_eq_Suc)

lemma length_fresh_array: "length (fresh_array f n) = n"
  by (induction n) simp_all

lemma ucast_up_down: "(ucast (ucast (a::byte) :: 16 word) :: byte) = a"
  by (simp add: ucast_down_ucast_id is_down)

lemma ucast_down_sub: "(ucast (x - y :: 16 word) :: byte) = ucast x - ucast y"
proof -
  have e: "x - y = word_of_int (uint x - uint y)"
    by (simp only: wi_hom_sub [symmetric] word_of_int_uint)
  have "(ucast (word_of_int (uint x - uint y) :: 16 word) :: byte) = word_of_int (uint x - uint y)"
    by (rule ucast_down_wi) (simp add: is_down)
  also have "\<dots> = ucast x - ucast y"
    by (simp only: wi_hom_sub [symmetric] ucast_eq)
  finally show ?thesis
    by (simp only: e [symmetric])
qed

lemma sum_step: "(s::byte) + ucast ((x::16 word) - ucast s) = ucast x"
  by (simp add: ucast_down_sub ucast_up_down)

lemma unat_of_nat_byte: "unat (of_nat n :: byte) = n mod 256"
  by (simp add: unat_of_nat)

lemma ucast_of_nat_byte: "(ucast (of_nat n :: byte) :: 16 word) = of_nat (n mod 256)"
  by (metis of_nat_unat unat_of_nat_byte)

lemma of_nat_add_delta: "(of_nat (n + unat (d :: 16 word)) :: byte) = of_nat n + ucast d"
  by simp

lemma unat_of_nat_mod_16: "unat (of_nat (k mod 256) :: 16 word) = k mod 256"
proof -
  have "k mod 256 < 65536" using mod_less_divisor [of 256 k] by linarith
  then show ?thesis by (simp add: unat_of_nat)
qed

lemma of_nat_mod_le_9: "((of_nat (k mod 256) :: 16 word) \<le> 9) = (k mod 256 \<le> 9)"
  by (simp add: word_le_nat_alt unat_of_nat_mod_16)

lemma ucast_byte_small:
  assumes "unat (x :: 16 word) < 256"
  shows "(ucast (ucast x :: byte) :: 16 word) = x"
proof -
  have "unat (ucast (ucast x :: byte) :: 16 word) = unat x"
    using assms by (simp add: unsigned_ucast_eq unsigned_take_bit_eq take_bit_nat_eq_self)
  then show ?thesis by (simp only: word_unat_eq_iff)
qed

subsection \<open>The CBOR encoders\<close>

lemma encode_th3_fits:
  assumes "length (cbor_bstr (th3_th_2 input)) + length (cbor_bstr (th3_CIPHERTEXT_2 input))
             \<le> payload_length"
  shows "encode_th3 (new_state payload_length) input =
           (True, \<lparr> cs_payload = cbor_bstr (th3_th_2 input) @ cbor_bstr (th3_CIPHERTEXT_2 input),
                    cs_payload_end = payload_length \<rparr>)"
  using assms by (simp add: encode_th3_def bstrx_encode_def new_state_def)

lemma context_str_strlen: "take (strlen context_str) context_str = ascii ''Encrypt0''"
  by (simp add: strlen_def context_str_def ascii_def)

subsection \<open>The option split\<close>

lemma split_loop_append:
  "split_loop rq ce (xs @ ys) s = split_loop rq ce ys (split_loop rq ce xs s)"
  by (induction xs arbitrary: s) simp_all

lemma split_step_grows:
  "\<exists>es us. e_opts (split_step rq ce opt s) = e_opts s @ es \<and>
           U_opts (split_step rq ce opt s) = U_opts s @ us"
  by (simp add: split_step_def Let_def push_e_def push_u_def)

lemma split_loop_grows:
  "\<exists>es us. e_opts (split_loop rq ce opts s) = e_opts s @ es \<and>
           U_opts (split_loop rq ce opts s) = U_opts s @ us"
proof (induction opts arbitrary: s)
  case Nil
  then show ?case by simp
next
  case (Cons opt opts)
  obtain es us where a: "e_opts (split_step rq ce opt s) = e_opts s @ es"
      "U_opts (split_step rq ce opt s) = U_opts s @ us"
    using split_step_grows by blast
  obtain es' us' where b:
      "e_opts (split_loop rq ce opts (split_step rq ce opt s)) = e_opts (split_step rq ce opt s) @ es'"
      "U_opts (split_loop rq ce opts (split_step rq ce opt s)) = U_opts (split_step rq ce opt s) @ us'"
    using Cons.IH by blast
  show ?case by (simp add: a b)
qed

lemma split_step_nr:
  "temp_option_nr s = of_nat n \<Longrightarrow>
     temp_option_nr (split_step rq ce opt s) = of_nat (n + unat (o_delta opt))"
  by (simp add: split_step_def Let_def push_e_def push_u_def)

lemma split_loop_nr:
  "temp_option_nr s = of_nat n \<Longrightarrow>
     temp_option_nr (split_loop rq ce opts s) = of_nat (last (n # abs_numbers n opts))"
proof (induction opts arbitrary: s n)
  case Nil
  then show ?case by simp
next
  case (Cons opt opts)
  from Cons.IH [OF split_step_nr [OF Cons.prems]] show ?case by simp
qed

lemma abs_numbers_append:
  "abs_numbers n (xs @ ys) = abs_numbers n xs @ abs_numbers (last (n # abs_numbers n xs)) ys"
  by (induction xs arbitrary: n) simp_all

lemma split_step_observe:
  assumes "unat (temp_option_nr s + ucast (o_delta opt)) = OBSERVE"
  shows "e_opts (split_step rq ce opt s) = e_opts s @
           [\<lparr> o_delta = ucast (temp_option_nr s + ucast (o_delta opt))
                          - ucast (temp_E_option_delta_sum s),
              o_len = (if rq then ucast (ucast (o_len opt) :: byte) else 0),
              o_value = (if rq then o_value opt else None),
              o_option_number = ucast (temp_option_nr s + ucast (o_delta opt)) \<rparr>]"
    and "U_opts (split_step rq ce opt s) = U_opts s @
           [\<lparr> o_delta = ucast (temp_option_nr s + ucast (o_delta opt))
                          - ucast (temp_U_option_delta_sum s),
              o_len = ucast (ucast (o_len opt) :: byte),
              o_value = o_value opt,
              o_option_number = ucast (temp_option_nr s + ucast (o_delta opt)) \<rparr>]"
  using assms
  by (simp_all add: split_step_def Let_def push_e_def push_u_def e_entry_def u_entry_def)


lemma rebuilt_deltas_append:
  "rebuilt_deltas p (xs @ [x]) =
     rebuilt_deltas p xs @ [x - ucast (if xs = [] then p else ucast (last xs))]"
  by (induction xs arbitrary: p) auto

lemma split_inv_init: "split_inv split_init"
  by (simp add: split_inv_def split_init_def)

lemma push_e_inv:
  assumes "split_inv s" "e = e_entry s l v"
  shows "split_inv (push_e e s)"
  using assms unfolding split_inv_def
  by (auto simp: push_e_def e_entry_def rebuilt_deltas_append last_map ucast_up_down sum_step)

lemma push_u_inv:
  assumes "split_inv s" "u = u_entry s l v"
  shows "split_inv (push_u u s)"
  using assms unfolding split_inv_def
  by (auto simp: push_u_def u_entry_def rebuilt_deltas_append last_map ucast_up_down sum_step)

lemma split_inv_len: "split_inv (s\<lparr>e_opts_len := x\<rparr>) = split_inv s"
  by (simp add: split_inv_def)

lemma split_inv_nr: "split_inv (s\<lparr>temp_option_nr := x\<rparr>) = split_inv s"
  by (simp add: split_inv_def)

lemma e_entry_len: "e_entry (s\<lparr>e_opts_len := x\<rparr>) l v = e_entry s l v"
  by (simp add: e_entry_def)

lemma u_entry_len: "u_entry (s\<lparr>e_opts_len := x\<rparr>) l v = u_entry s l v"
  by (simp add: u_entry_def)

lemma push_e_len: "push_e e s \<lparr>e_opts_len := x\<rparr> = push_e e (s \<lparr>e_opts_len := x\<rparr>)"
  by (simp add: push_e_def)

lemma split_inv_step: "split_inv s \<Longrightarrow> split_inv (split_step rq ce opt s)"
  unfolding split_step_def Let_def
  by (auto intro!: push_e_inv push_u_inv
        simp: split_inv_nr split_inv_len push_e_len e_entry_len u_entry_len)

lemma split_inv_loop: "split_inv s \<Longrightarrow> split_inv (split_loop rq ce opts s)"
  by (induction opts arbitrary: s) (auto simp: split_inv_step)

lemma split_step_numbers:
  assumes "temp_option_nr s = of_nat n"
  shows "map o_option_number (e_opts (split_step rq ce opt s)) =
         map o_option_number (e_opts s) @
           map (\<lambda>k. of_nat (k mod 256)) (filter (goes_E ce) [n + unat (o_delta opt)])"
    and "map o_option_number (U_opts (split_step rq ce opt s)) =
         map o_option_number (U_opts s) @
           map (\<lambda>k. of_nat (k mod 256)) (filter (goes_U ce) [n + unat (o_delta opt)])"
  using assms unfolding split_step_def Let_def goes_E_def goes_U_def
  by (auto simp: push_e_def push_u_def e_entry_def u_entry_def of_nat_add_delta [symmetric]
        ucast_of_nat_byte unat_of_nat_byte simp del: of_nat_add)

lemma split_loop_numbers:
  "temp_option_nr s = of_nat n \<Longrightarrow>
     map o_option_number (e_opts (split_loop rq ce opts s)) =
       map o_option_number (e_opts s) @
         map (\<lambda>k. of_nat (k mod 256)) (filter (goes_E ce) (abs_numbers n opts)) \<and>
     map o_option_number (U_opts (split_loop rq ce opts s)) =
       map o_option_number (U_opts s) @
         map (\<lambda>k. of_nat (k mod 256)) (filter (goes_U ce) (abs_numbers n opts))"
proof (induction opts arbitrary: s n)
  case Nil
  then show ?case by simp
next
  case (Cons opt opts)
  note st = split_step_numbers [OF Cons.prems, of rq ce opt]
  from Cons.IH [OF split_step_nr [OF Cons.prems]] show ?case
    by (simp add: st)
qed

subsection \<open>The option merge\<close>

lemma merge_loop_deltas:
  "map o_delta (merge_loop n i pos us oo s) =
     rebuilt_deltas s (map o_option_number (merge_loop n i pos us oo s))"
proof (induction n arbitrary: i us s)
  case 0
  then show ?case by simp
next
  case (Suc n)
  show ?case
  proof (cases "i = pos")
    case True
    then show ?thesis using Suc.IH by (simp add: Let_def sum_step)
  next
    case False
    then show ?thesis using Suc.IH by (cases us) (simp_all add: Let_def sum_step)
  qed
qed

lemma merge_loop_after:
  "pos < i \<Longrightarrow>
     map (\<lambda>e. (o_option_number e, o_len e, o_value e)) (merge_loop (length us) i pos us oo s)
       = map (\<lambda>e. (o_option_number e, o_len e, o_value e)) us"
  by (induction us arbitrary: i s) (simp_all add: Let_def)

lemma merge_loop_before:
  "i \<le> pos \<Longrightarrow> pos - i \<le> length us \<Longrightarrow>
     map (\<lambda>e. (o_option_number e, o_len e, o_value e))
         (merge_loop (Suc (length us)) i pos us oo s) =
       map (\<lambda>e. (o_option_number e, o_len e, o_value e)) (take (pos - i) us) @
       [(oo_option_number oo, ucast (oo_len oo), oo_value oo)] @
       map (\<lambda>e. (o_option_number e, o_len e, o_value e)) (drop (pos - i) us)"
proof (induction us arbitrary: i s)
  case Nil
  then show ?case by (simp add: Let_def)
next
  case (Cons u us)
  show ?case
  proof (cases "i = pos")
    case True
    then show ?thesis
      using merge_loop_after [of pos "Suc pos" "u # us" oo] by (simp add: Let_def)
  next
    case False
    with Cons.prems have a: "Suc i \<le> pos" "pos - Suc i \<le> length us"
        "pos - i = Suc (pos - Suc i)"
      by auto
    from Cons.IH [OF a(1,2)] False show ?thesis
      by (simp add: Let_def a(3))
  qed
qed

lemma oscore_opt_pos_bounds:
  "i \<le> oscore_opt_pos us i \<and> oscore_opt_pos us i \<le> i + length us"
proof (induction us arbitrary: i)
  case Nil
  then show ?case by simp
next
  case (Cons u us)
  from Cons.IH [of "Suc i"] show ?case by auto
qed

lemma oscore_opt_pos_prefix:
  "list_all (\<lambda>u. o_option_number u \<le> of_nat OSCORE) (take (oscore_opt_pos us i - i) us)"
proof (induction us arbitrary: i)
  case Nil
  then show ?case by simp
next
  case (Cons u us)
  have "Suc i \<le> oscore_opt_pos us (Suc i)" using oscore_opt_pos_bounds by blast
  then have "oscore_opt_pos us (Suc i) - i = Suc (oscore_opt_pos us (Suc i) - Suc i)" by simp
  with Cons.IH [of "Suc i"] show ?case by (auto simp: not_less)
qed

lemma oscore_opt_pos_hit:
  "oscore_opt_pos us i - i < length us \<Longrightarrow>
     of_nat OSCORE < o_option_number (us ! (oscore_opt_pos us i - i))"
proof (induction us arbitrary: i)
  case Nil
  then show ?case by simp
next
  case (Cons u us)
  have "Suc i \<le> oscore_opt_pos us (Suc i)" using oscore_opt_pos_bounds by blast
  then have e: "oscore_opt_pos us (Suc i) - i = Suc (oscore_opt_pos us (Suc i) - Suc i)" by simp
  show ?case
  proof (cases "of_nat OSCORE < o_option_number u")
    case True
    then show ?thesis by simp
  next
    case False
    with Cons.prems e have "oscore_opt_pos us (Suc i) - Suc i < length us" by simp
    from Cons.IH [OF this] False e show ?thesis by simp
  qed
qed

subsection \<open>The pipeline\<close>

lemma TRY_simps [simp]:
  "TRY (Inl e) c k = (Inl e, c)"
  "TRY (Inr v) c k = k v"
  by (simp_all add: TRY_def)

lemma copy_into_whole:
  "length b = length src \<Longrightarrow> length src \<le> cap \<Longrightarrow> copy_into cap b 0 src = Inr src"
  by (simp add: copy_into_def)

lemma protect_stage_context: "snd (protect_stage X pkt U pt cap oo c) = c"
  by (simp add: protect_stage_def TRY_def BYTE_ARRAY_NEW_def Let_def split: sum.splits)

lemma cache_echo_step_ssn:
  "sender_seq_num (sc (snd (cache_echo_step X E c))) = sender_seq_num (sc c)"
  by (simp add: cache_echo_step_def TRY_def Let_def split: sum.splits prod.splits)

lemma create_nonce_step_ssn:
  "sender_seq_num (sc (snd (create_nonce_step X piv c))) = sender_seq_num (sc c)"
  by (simp add: create_nonce_step_def split: prod.splits)

lemma piv_rest_ssn:
  assumes "\<And>c piv kid rq. sender_seq_num (sc (snd (update_request_piv_request_kid X c piv kid rq)))
             = sender_seq_num (sc c)"
  shows "sender_seq_num (sc (snd (piv_rest X rq E piv c))) = sender_seq_num (sc c)"
proof -
  obtain r2 c2 where u: "update_request_piv_request_kid X c piv (sender_id (sc c)) rq = (r2, c2)"
    by (cases "update_request_piv_request_kid X c piv (sender_id (sc c)) rq")
  obtain r3 c3 where e: "cache_echo_step X E c2 = (r3, c3)"
    by (cases "cache_echo_step X E c2")
  obtain r4 c4 where n: "create_nonce_step X piv c3 = (r4, c4)"
    by (cases "create_nonce_step X piv c3")
  have s2: "sender_seq_num (sc c2) = sender_seq_num (sc c)"
    using assms [of c piv "sender_id (sc c)" rq] u by simp
  have s3: "sender_seq_num (sc c3) = sender_seq_num (sc c2)"
    using cache_echo_step_ssn [of X E c2] e by simp
  have s4: "sender_seq_num (sc c4) = sender_seq_num (sc c3)"
    using create_nonce_step_ssn [of X piv c3] n by simp
  show ?thesis
    by (simp add: piv_rest_def u e n s2 s3 s4 TRY_def Let_def split: sum.splits)
qed

lemma piv_branch_ssn:
  assumes "\<And>c piv kid rq. sender_seq_num (sc (snd (update_request_piv_request_kid X c piv kid rq)))
             = sender_seq_num (sc c)"
  shows "sender_seq_num (sc (snd (piv_branch X rq E c))) = sender_seq_num (sc c) + 1"
  using piv_rest_ssn [OF assms]
  by (simp add: piv_branch_def BYTE_ARRAY_NEW_def Let_def TRY_def split: sum.splits)

subsection \<open>From the input packet to the outer packet\<close>

lemma oscore_opt_pos_takeWhile:
  "oscore_opt_pos us i = i + length (takeWhile (\<lambda>u. o_option_number u \<le> of_nat OSCORE) us)"
  by (induction us arbitrary: i) (auto simp: not_less)

lemma split_numbers:
  assumes "inner_outer_option_split M is_req ce pkt = Inr (E, L, U)"
  shows "map o_option_number E =
           map (\<lambda>k. of_nat (k mod 256)) (filter (goes_E ce) (abs_numbers 0 (options pkt)))"
    and "map o_option_number U =
           map (\<lambda>k. of_nat (k mod 256)) (filter (goes_U ce) (abs_numbers 0 (options pkt)))"
proof -
  define s where "s = split_loop (is_req pkt) ce (options pkt) split_init"
  have fin: "E = e_opts s" "U = U_opts s"
    using assms by (auto simp: inner_outer_option_split_def Let_def s_def split: if_splits)
  have "temp_option_nr split_init = of_nat 0" by (simp add: split_init_def)
  from split_loop_numbers [OF this, of "is_req pkt" ce "options pkt"]
  show "map o_option_number E =
          map (\<lambda>k. of_nat (k mod 256)) (filter (goes_E ce) (abs_numbers 0 (options pkt)))"
    and "map o_option_number U =
          map (\<lambda>k. of_nat (k mod 256)) (filter (goes_U ce) (abs_numbers 0 (options pkt)))"
    by (simp_all add: fin s_def split_init_def)
qed

lemma is_observe_numbers:
  "is_observe us = list_ex (\<lambda>x. unat x = OBSERVE) (map o_option_number us)"
  by (simp add: is_observe_def list_ex_iff)

lemma split_is_observe:
  assumes "inner_outer_option_split M is_req ce pkt = Inr (E, L, U)"
  shows "is_observe U = observe_mod_256 (options pkt)"
  unfolding is_observe_numbers split_numbers(2) [OF assms] observe_mod_256_def
  by (auto simp: list_ex_iff unat_of_nat_mod_16 goes_U_def)

lemma split_oscore_opt_pos:
  assumes "inner_outer_option_split M is_req ce pkt = Inr (E, L, U)"
  shows "oscore_opt_pos U 0 =
           length (takeWhile (\<lambda>k. k mod 256 \<le> OSCORE)
                     (filter (goes_U ce) (abs_numbers 0 (options pkt))))"
proof -
  have "length (takeWhile (\<lambda>u. o_option_number u \<le> of_nat OSCORE) U) =
        length (takeWhile (\<lambda>x. x \<le> 9) (map o_option_number U))"
    by (simp add: takeWhile_map comp_def OSCORE_def)
  also have "\<dots> = length (takeWhile (\<lambda>k. k mod 256 \<le> OSCORE)
                          (filter (goes_U ce) (abs_numbers 0 (options pkt))))"
    unfolding split_numbers(2) [OF assms]
    by (simp add: takeWhile_map comp_def of_nat_mod_le_9 OSCORE_def)
  finally show ?thesis by (simp add: oscore_opt_pos_takeWhile)
qed


lemma pkg_generate_shape:
  assumes "length u_options < M"
  shows "\<exists>out. oscore_pkg_generate M is_req pkt u_options ct oo = Inr out \<and>
           hdr_code (header out) =
             (if is_req pkt then (if is_observe u_options then 0x05 else 0x02)
              else (if is_observe u_options then 0x45 else 0x44)) \<and>
           oscore_opt_pos u_options 0 \<le> length u_options \<and>
           map (\<lambda>e. (o_option_number e, o_len e, o_value e)) (options out) =
             map (\<lambda>e. (o_option_number e, o_len e, o_value e))
                 (take (oscore_opt_pos u_options 0) u_options) @
             [(oo_option_number oo, ucast (oo_len oo), oo_value oo)] @
             map (\<lambda>e. (o_option_number e, o_len e, o_value e))
                 (drop (oscore_opt_pos u_options 0) u_options) \<and>
           list_all (\<lambda>u. o_option_number u \<le> 9) (take (oscore_opt_pos u_options 0) u_options) \<and>
           (oscore_opt_pos u_options 0 < length u_options \<longrightarrow>
              9 < o_option_number (u_options ! oscore_opt_pos u_options 0))"
proof -
  have b: "oscore_opt_pos u_options 0 \<le> length u_options"
    using oscore_opt_pos_bounds [of 0 u_options] by simp
  have m: "map (\<lambda>e. (o_option_number e, o_len e, o_value e))
             (merge_loop (Suc (length u_options)) 0 (oscore_opt_pos u_options 0) u_options oo 0) =
           map (\<lambda>e. (o_option_number e, o_len e, o_value e))
               (take (oscore_opt_pos u_options 0) u_options) @
           [(oo_option_number oo, ucast (oo_len oo), oo_value oo)] @
           map (\<lambda>e. (o_option_number e, o_len e, o_value e))
               (drop (oscore_opt_pos u_options 0) u_options)"
    using merge_loop_before [of 0 "oscore_opt_pos u_options 0" u_options oo 0] b by simp
  have pre: "list_all (\<lambda>u. o_option_number u \<le> 9) (take (oscore_opt_pos u_options 0) u_options)"
    using oscore_opt_pos_prefix [of u_options 0] by (simp add: OSCORE_def)
  have hit: "oscore_opt_pos u_options 0 < length u_options \<longrightarrow>
               9 < o_option_number (u_options ! oscore_opt_pos u_options 0)"
    using oscore_opt_pos_hit [of u_options 0] by (simp add: OSCORE_def)
  show ?thesis
    using assms b m pre hit
    by (simp add: oscore_pkg_generate_def Let_def CODE_REQ_FETCH_def CODE_REQ_POST_def
          CODE_RESP_CONTENT_def CODE_RESP_CHANGED_def)
qed



subsection \<open>The value of the OSCORE option\<close>

lemma copy_into_keeps_head:
  assumes "copy_into cap b off src = Inr b'" and "0 < off" and "b \<noteq> []"
  shows "b' \<noteq> [] \<and> hd b' = hd b \<and> length b' = length b"
proof -
  from assms(1) have b': "b' = take (length b) (take off b @ src @ drop (off + length src) b)"
    by (auto simp: copy_into_def split: if_splits)
  obtain x xs where b: "b = x # xs" using assms(3) by (cases b) auto
  obtain k where off: "off = Suc k" using assms(2) by (cases off) auto
  show ?thesis by (simp add: b' b off min_def)
qed

lemma memcpy_s_keeps_head:
  assumes "memcpy_s cap b off n src = Inr b'" and "0 < off" and "b \<noteq> []"
  shows "b' \<noteq> [] \<and> hd b' = hd b \<and> length b' = length b"
  using assms copy_into_keeps_head [of cap b off src b']
  by (auto simp: memcpy_s_def split: if_splits)

lemma or_flags_head: "v \<noteq> [] \<Longrightarrow> or_flags v m \<noteq> [] \<and> hd (or_flags v m) = hd v OR m"
  by (cases v) (simp_all add: or_flags_def)

lemma gen_piv_shape:
  assumes "gen_piv cap l piv v = Inr (v', off)" and "piv \<noteq> []" and "v \<noteq> []"
  shows "v' \<noteq> [] \<and> 0 < off"
  using assms or_flags_head [of v "of_nat (length piv)"]
    memcpy_s_keeps_head [of cap "or_flags v (of_nat (length piv))" 1 "ucast l - 1" piv v']
  by (auto simp: gen_piv_def split: sum.splits)

lemma gen_kid_context_shape:
  assumes "gen_kid_context cap l kc (v, off) = Inr (v', off')" and "0 < off" and "v \<noteq> []"
  shows "v' \<noteq> [] \<and> 0 < off'"
proof (cases "length kc \<noteq> 0")
  case False
  with assms show ?thesis by (simp add: gen_kid_context_def)
next
  case True
  then obtain v1 where a: "copy_into cap (or_flags v COMP_OSCORE_OPT_KIDC_H_MASK) off
                             [of_nat (length kc)] = Inr v1"
      and b: "memcpy_s cap v1 (off + 1) (ucast l - of_nat (off + 1)) kc = Inr v'"
      and c: "off' = off + 1 + length kc"
    using assms(1) by (auto simp: gen_kid_context_def split: sum.splits)
  have "or_flags v COMP_OSCORE_OPT_KIDC_H_MASK \<noteq> []"
    using or_flags_head [OF assms(3)] by simp
  from copy_into_keeps_head [OF a assms(2) this] have "v1 \<noteq> []" by simp
  from memcpy_s_keeps_head [OF b _ this] c show ?thesis by simp
qed

lemma gen_kid_sets_flag:
  assumes "gen_kid cap l kid (v, off) = Inr v'" and "0 < off" and "v \<noteq> []"
  shows "v' \<noteq> [] \<and> hd v' AND COMP_OSCORE_OPT_KID_K_MASK = COMP_OSCORE_OPT_KID_K_MASK"
proof -
  have h: "or_flags v COMP_OSCORE_OPT_KID_K_MASK \<noteq> []"
      "hd (or_flags v COMP_OSCORE_OPT_KID_K_MASK) = hd v OR COMP_OSCORE_OPT_KID_K_MASK"
    using or_flags_head [OF assms(3)] by simp_all
  have k: "(hd v OR COMP_OSCORE_OPT_KID_K_MASK) AND COMP_OSCORE_OPT_KID_K_MASK
             = COMP_OSCORE_OPT_KID_K_MASK"
    by (simp add: bit.conj_disj_distrib2)
  show ?thesis
  proof (cases "length kid \<noteq> 0")
    case False
    with assms(1) h k show ?thesis by (auto simp: gen_kid_def)
  next
    case True
    with assms(1) have "memcpy_s cap (or_flags v COMP_OSCORE_OPT_KID_K_MASK) off
                          (ucast l - of_nat off) kid = Inr v'"
      by (simp add: gen_kid_def)
    from memcpy_s_keeps_head [OF this assms(2) h(1)] h(2) k show ?thesis by simp
  qed
qed

text \<open>
  Whenever \<open>oscore_option_generate\<close> produces a value from a non-empty partial IV, the
  kid flag of its first byte is set: the function has no case for a response.
\<close>

lemma oscore_option_generate_sets_kid_flag:
  assumes "oscore_option_generate cap piv kid kc l = Inr oo" and "l \<noteq> 0" and "piv \<noteq> []"
  shows "\<exists>x xs. oo_value oo = Some (x # xs) \<and>
           x AND COMP_OSCORE_OPT_KID_K_MASK = COMP_OSCORE_OPT_KID_K_MASK"
proof -
  have l: "0 < unat l" using assms(2) by (simp add: unat_gt_0)
  then have v0: "replicate (unat l) (0::byte) \<noteq> []" by simp
  from assms(1,2) obtain v1 off1 v2 off2 v where
      a: "gen_piv cap l piv (replicate (unat l) 0) = Inr (v1, off1)"
      and b: "gen_kid_context cap l kc (v1, off1) = Inr (v2, off2)"
      and c: "gen_kid cap l kid (v2, off2) = Inr v"
      and d: "oo_value oo = Some v"
    by (auto simp: oscore_option_generate_def split: if_splits sum.splits)
  from gen_piv_shape [OF a assms(3) v0] have s1: "v1 \<noteq> []" "0 < off1" by simp_all
  from gen_kid_context_shape [OF b s1(2) s1(1)] have s2: "v2 \<noteq> []" "0 < off2" by simp_all
  from gen_kid_sets_flag [OF c s2(2) s2(1)] d show ?thesis
    by (cases v) auto
qed

text \<open>
  A response without observe and not after reboot gets an absent OSCORE option value, and
  the context is not touched.
\<close>

lemma oscore_option_stage_plain_response:
  assumes "\<not> is_request X pkt" and "\<not> is_observe U" and "\<not> reboot (rrc c)"
  shows "oscore_option_stage X pkt E U c =
           (Inr \<lparr> oo_len = 0, oo_value = None, oo_option_number = 9 \<rparr>, c)"
  using assms by (simp add: oscore_option_stage_def OSCORE_def)

subsection \<open>Evaluation on concrete packets\<close>

lemmas split_eval =
  inner_outer_option_split_def options_cnt_def split_init_def split_step_def Let_def
  extra_bytes_def OBSERVE_def push_e_def push_u_def e_entry_def u_entry_def is_request_spec_def
  is_class_e_spec_def word_le_nat_alt word_less_nat_alt

lemmas parse_eval = buf2coap_spec_def opt_ext_def

lemmas pipeline_eval =
  coap2oscore_def plaintext_stage_def ref_collab_def ctx0_def server_ctx_def CODE_EMPTY_def
  TYPE_ACK_def memcpy_s_def copy_into_def payload_len_def BYTE_ARRAY_NEW_def plaintext_setup_def
  options_into_byte_string_spec_def serialize_option_def opt_nibble_def oscore_option_stage_def
  is_observe_def piv_branch_def piv_rest_def sender_seq_num2piv_spec_def MAX_SSN_def
  update_request_piv_request_kid_spec_def cache_echo_step_def cache_echo_val_spec_def
  create_nonce_step_def create_nonce_spec_def pad_left_def get_oscore_opt_val_len_def
  oscore_option_generate_def gen_piv_def gen_kid_context_def gen_kid_def or_flags_def
  COMP_OSCORE_OPT_KIDC_H_MASK_def COMP_OSCORE_OPT_KID_K_MASK_def protect_stage_def
  create_aad_spec_def cbor_head_def cbor_int_def cbor_bstr_def cbor_tstr_def ascii_def
  check_buffer_size_def plaintext_encrypt_def seal_stub_def oscore_pkg_generate_def
  CODE_REQ_POST_def CODE_REQ_FETCH_def CODE_RESP_CHANGED_def CODE_RESP_CONTENT_def
  coap2buf_spec_def OSCORE_def OBSERVE_def replicate_num fresh_array_num

lemma get_request_parses: "buf2coap_spec get_request = Inr get_request_pkt"
  by (simp add: get_request_def get_request_pkt_def parse_eval)

lemma get_request_plaintext:
  "plaintext_stage ref_collab get_request_pkt =
     Inr ([\<lparr> o_delta = 11, o_len = 3, o_value = Some [0x74, 0x76, 0x31],
              o_option_number = 11 \<rparr>],
          [\<lparr> o_delta = 3, o_len = 9,
              o_value = Some [0x6c, 0x6f, 0x63, 0x61, 0x6c, 0x68, 0x6f, 0x73, 0x74],
              o_option_number = 3 \<rparr>],
          [0x01, 0xb3, 0x74, 0x76, 0x31])"
  by (simp add: get_request_pkt_def split_eval plaintext_stage_def ref_collab_def
        payload_len_def BYTE_ARRAY_NEW_def plaintext_setup_def
        options_into_byte_string_spec_def serialize_option_def opt_nibble_def memcpy_s_def
        copy_into_def fresh_array_num)



section \<open>Transcript hash 3\<close>

text \<open>
  C1 (as stated, refuted). On the input with \<open>th_2 = 01\<close> and second field \<open>02\<close> the
  encoder writes the four bytes \<open>41 01 41 02\<close>, two byte strings, which is not the
  encoding of three items.
\<close>

theorem cbor_encode_th3_three_items_counterexample:
  "cbor_encode_th3 16 \<lparr> th3_th_2 = [1], th3_CIPHERTEXT_2 = [2] \<rparr>
     = (True, Some 4, [0x41, 1, 0x41, 2]) \<and>
   snd (snd (cbor_encode_th3 16 \<lparr> th3_th_2 = [1], th3_CIPHERTEXT_2 = [2] \<rparr>))
     \<noteq> th3_input_spec [1] [2] [3]"
  by (simp add: cbor_encode_th3_def encode_th3_def bstrx_encode_def new_state_def cbor_bstr_def
        cbor_head_def th3_input_spec_def)

text \<open>
  C1 (amended). The encoder that builds the hash input of \<open>TH_3\<close> serializes exactly two
  byte strings, \<open>th_2\<close> and then \<open>CIPHERTEXT_2\<close>: when they fit in the buffer it
  succeeds, writes their two encodings in this order and nothing else, and reports their
  total length.
\<close>

theorem cbor_encode_th3_two_items:
  assumes "length (cbor_bstr (th3_th_2 input)) + length (cbor_bstr (th3_CIPHERTEXT_2 input))
             \<le> payload_length"
  shows "cbor_encode_th3 payload_length input =
           (True,
            Some (length (cbor_bstr (th3_th_2 input)) + length (cbor_bstr (th3_CIPHERTEXT_2 input))),
            cbor_bstr (th3_th_2 input) @ cbor_bstr (th3_CIPHERTEXT_2 input))"
  using assms by (simp add: cbor_encode_th3_def encode_th3_fits)

theorem cbor_encode_th3_two_items_witness:
  "length (cbor_bstr [0xaa, 0xbb]) + length (cbor_bstr [0xcc]) \<le> 16 \<and>
   cbor_encode_th3 16 \<lparr> th3_th_2 = [0xaa, 0xbb], th3_CIPHERTEXT_2 = [0xcc] \<rparr>
     = (True, Some 5, [0x42, 0xaa, 0xbb, 0x41, 0xcc])"
  using cbor_encode_th3_two_items [of "\<lparr> th3_th_2 = [0xaa, 0xbb], th3_CIPHERTEXT_2 = [0xcc] \<rparr>" 16]
  by (simp add: cbor_bstr_def cbor_head_def)

section \<open>Observe in the option split\<close>

text \<open>
  C2 (as stated, refuted). The 2.05 notification with Observe 42 is a response; the split
  puts an Observe option in the E list as well (with length 0 and no value), next to the one
  in the U list.
\<close>

theorem observe_notification_counterexample:
  "map_sum id (inner_outer_option_split 20 is_request_spec is_class_e_spec)
       (buf2coap_spec observe_notification) =
     Inr (Inr ([\<lparr> o_delta = 6, o_len = 0, o_value = None, o_option_number = 6 \<rparr>], 1,
               [\<lparr> o_delta = 6, o_len = 1, o_value = Some [42], o_option_number = 6 \<rparr>]))"
  by (simp add: observe_notification_def parse_eval split_eval)

text \<open>
  C2 (amended). For every input packet with an Observe option (an option whose absolute
  number is 6): the split appends one entry with number 6 to the E list and one to the U
  list, at the place of that option. The U entry carries the value of the option and its
  length as the split holds it in the 8-bit \<open>temp_len\<close>: the length reduced modulo 256,
  which is the length of the option itself when that is below 256. In a request the E entry
  carries the same length and value as the U entry; in a response the E entry is there too,
  with length 0 and no value.
\<close>

theorem observe_split:
  assumes opts: "options pkt = pre @ opt # post"
      and obs: "last (abs_numbers 0 (pre @ [opt])) = OBSERVE"
      and split: "inner_outer_option_split M is_req ce pkt = Inr (E, L, U)"
  shows "\<exists>e E2 u U2.
           E = e_opts (split_loop (is_req pkt) ce pre split_init) @ e # E2 \<and>
           U = U_opts (split_loop (is_req pkt) ce pre split_init) @ u # U2 \<and>
           o_option_number e = 6 \<and> o_option_number u = 6 \<and>
           o_len u = ucast (ucast (o_len opt) :: byte) \<and> o_value u = o_value opt \<and>
           unat (o_len u) = unat (o_len opt) mod 256 \<and>
           (unat (o_len opt) < 256 \<longrightarrow> o_len u = o_len opt) \<and>
           (if is_req pkt then o_len e = o_len u \<and> o_value e = o_value u
            else o_len e = 0 \<and> o_value e = None)"
proof -
  define rq where "rq = is_req pkt"
  define s where "s = split_loop rq ce pre split_init"
  define s1 where "s1 = split_step rq ce opt s"
  define sf where "sf = split_loop rq ce post s1"
  have fin: "E = e_opts sf" "U = U_opts sf"
    using split opts
    by (auto simp: inner_outer_option_split_def Let_def split_loop_append sf_def s1_def s_def
          rq_def split: if_splits)
  have "temp_option_nr split_init = of_nat 0" by (simp add: split_init_def)
  then have nr: "temp_option_nr s = of_nat (last (0 # abs_numbers 0 pre))"
    unfolding s_def by (rule split_loop_nr)
  have "last (abs_numbers 0 (pre @ [opt])) = last (0 # abs_numbers 0 pre) + unat (o_delta opt)"
    by (simp add: abs_numbers_append)
  with obs have six: "last (0 # abs_numbers 0 pre) + unat (o_delta opt) = OBSERVE" by simp
  have "temp_option_nr s + ucast (o_delta opt) = of_nat OBSERVE"
    using nr six by (metis of_nat_add_delta)
  then have nr6: "temp_option_nr s + ucast (o_delta opt) = 6" by (simp add: OBSERVE_def)
  then have "unat (temp_option_nr s + ucast (o_delta opt)) = OBSERVE" by (simp add: OBSERVE_def)
  note st = split_step_observe [OF this, of rq ce]
  obtain es us where g: "e_opts sf = e_opts s1 @ es" "U_opts sf = U_opts s1 @ us"
    unfolding sf_def using split_loop_grows by blast
  have red: "unat (ucast (ucast (o_len opt) :: byte) :: 16 word) = unat (o_len opt) mod 256"
    by (simp add: unsigned_ucast_eq unsigned_take_bit_eq take_bit_eq_mod unat_mod)
  show ?thesis
    unfolding fin g s1_def st rq_def [symmetric] s_def [symmetric]
    by (simp add: nr6 red ucast_byte_small)
qed

theorem observe_split_witness:
  "inner_outer_option_split 20 is_request_spec is_class_e_spec
      observe_notification_pkt
     = Inr ([\<lparr> o_delta = 6, o_len = 0, o_value = None, o_option_number = 6 \<rparr>], 1,
            [\<lparr> o_delta = 6, o_len = 1, o_value = Some [42], o_option_number = 6 \<rparr>]) \<and>
   last (abs_numbers 0
          ([] @ [\<lparr> o_delta = 6, o_len = 1, o_value = Some [42], o_option_number = 6 \<rparr>]))
     = OBSERVE \<and>
   (\<exists>e E2 u U2.
     [\<lparr> o_delta = 6, o_len = 0, o_value = None, o_option_number = 6 \<rparr>] = [] @ e # E2 \<and>
     [\<lparr> o_delta = 6, o_len = 1, o_value = Some [42], o_option_number = 6 \<rparr>] = [] @ u # U2 \<and>
     o_option_number e = 6 \<and> o_option_number u = 6 \<and>
     o_len u = 1 \<and> o_value u = Some [42] \<and> o_len e = 0 \<and> o_value e = None) \<and>
   unat (o_len \<lparr> o_delta = 6, o_len = 1, o_value = Some [42], o_option_number = 6 \<rparr>) < 256"
  using observe_split [of
     observe_notification_pkt
     "[]" "\<lparr> o_delta = 6, o_len = 1, o_value = Some [42], o_option_number = 6 \<rparr>" "[]"
     20 is_request_spec is_class_e_spec
     "[\<lparr> o_delta = 6, o_len = 0, o_value = None, o_option_number = 6 \<rparr>]" 1
     "[\<lparr> o_delta = 6, o_len = 1, o_value = Some [42], o_option_number = 6 \<rparr>]"]
  by (simp add: observe_notification_pkt_def split_eval)

section \<open>The OSCORE option of a response\<close>

text \<open>
  C3 (the code departs from the claim). The 2.05 notification with Observe 42, sent from the
  server context with sender id \<open>01\<close> and sequence number 20: the OSCORE option of the
  outgoing packet has the value \<open>09 14 01\<close>. The partial IV \<open>14\<close> is included, but
  the first byte has the kid flag set (mask 0x08) and the kid \<open>01\<close> is carried.
\<close>

theorem coap2oscore_notification_kid_flag:
  "fst (coap2oscore ref_collab observe_notification 100 server_ctx) =
     Inr [0x64, 0x45, 0x5d, 0x1f, 0x00, 0x00, 0x39, 0x74,
          0x61, 0x2a,
          0x33, 0x09, 0x14, 0x01,
          0xff, 0x45, 0x60, 0xff, 0x48, 0x65, 0, 0, 0, 0, 0, 0, 0, 0] \<and>
   fst (oscore_option_stage ref_collab observe_notification_pkt
          [\<lparr> o_delta = 6, o_len = 0, o_value = None, o_option_number = 6 \<rparr>]
          [\<lparr> o_delta = 6, o_len = 1, o_value = Some [42], o_option_number = 6 \<rparr>] server_ctx) =
     Inr \<lparr> oo_len = 3, oo_value = Some [0x09, 0x14, 0x01], oo_option_number = 9 \<rparr> \<and>
   (0x09 :: byte) AND COMP_OSCORE_OPT_KID_K_MASK = COMP_OSCORE_OPT_KID_K_MASK"
  by (simp add: observe_notification_def observe_notification_pkt_def parse_eval split_eval
        pipeline_eval)

section \<open>The sender sequence number\<close>

text \<open>
  C4 (as stated, refuted). The GET request of RFC 8613 on a context with sequence number
  20, with an AEAD that fails: \<open>coap2oscore\<close> returns the error of the AEAD, and the
  sequence number of the context is 21 after the call.
\<close>

theorem coap2oscore_ssn_counterexample:
  "fst (coap2oscore (ref_collab \<lparr> oscore_cose_encrypt := (\<lambda>pt n nce aad key. Inl (other_err 2)) \<rparr>)
          get_request 100 ctx0) = Inl (other_err 2) \<and>
   sender_seq_num (sc (snd (coap2oscore
       (ref_collab \<lparr> oscore_cose_encrypt := (\<lambda>pt n nce aad key. Inl (other_err 2)) \<rparr>)
       get_request 100 ctx0))) = 21 \<and>
   sender_seq_num (sc ctx0) = 20"
  by (simp add: get_request_def parse_eval split_eval pipeline_eval)

text \<open>
  C4 (amended). The sender sequence number is committed when the partial IV is drawn,
  before the nonce, the AAD and the encryption: in every call that gets as far as the
  OSCORE option of a request, of a response with observe or of the first response after
  reboot, the sequence number of the context after the call is one above its value before
  the call, whether the call succeeds or fails (\<open>update_request_piv_request_kid\<close> being
  a function that leaves the sequence number alone).
\<close>

theorem coap2oscore_ssn_committed_with_piv:
  assumes upd: "\<And>c piv kid rq.
                  sender_seq_num (sc (snd (update_request_piv_request_kid X c piv kid rq)))
                    = sender_seq_num (sc c)"
      and parse: "buf2coap X buf = Inr pkt"
      and not_ack: "hdr_code (header pkt) \<noteq> CODE_EMPTY \<or> hdr_type (header pkt) \<noteq> TYPE_ACK"
      and plain: "plaintext_stage X pkt = Inr (E, U, pt)"
      and draws: "is_request X pkt \<or> is_observe U \<or> reboot (rrc c)"
  shows "sender_seq_num (sc (snd (coap2oscore X buf cap c))) = sender_seq_num (sc c) + 1"
proof -
  obtain r c1 where b: "piv_branch X (is_request X pkt) E c = (r, c1)"
    by (cases "piv_branch X (is_request X pkt) E c")
  have c1: "sender_seq_num (sc c1) = sender_seq_num (sc c) + 1"
    using piv_branch_ssn [OF upd, of "is_request X pkt" E c] b by simp
  have st: "oscore_option_stage X pkt E U c = (r, c1)"
    using draws b by (simp add: oscore_option_stage_def Let_def)
  have "snd (coap2oscore X buf cap c) = c1"
    using parse not_ack plain st protect_stage_context [of X pkt U pt cap _ c1]
    by (cases r) (auto simp: coap2oscore_def)
  with c1 show ?thesis by simp
qed

theorem coap2oscore_ssn_committed_with_piv_witness:
  "buf2coap ref_collab get_request = Inr get_request_pkt \<and>
   plaintext_stage ref_collab get_request_pkt =
     Inr ([\<lparr> o_delta = 11, o_len = 3, o_value = Some [0x74, 0x76, 0x31],
              o_option_number = 11 \<rparr>],
          [\<lparr> o_delta = 3, o_len = 9,
              o_value = Some [0x6c, 0x6f, 0x63, 0x61, 0x6c, 0x68, 0x6f, 0x73, 0x74],
              o_option_number = 3 \<rparr>],
          [0x01, 0xb3, 0x74, 0x76, 0x31]) \<and>
   is_request ref_collab get_request_pkt \<and>
   sender_seq_num (sc ctx0) = 20 \<and>
   sender_seq_num (sc (snd (coap2oscore ref_collab get_request 100 ctx0))) = 21"
  using coap2oscore_ssn_committed_with_piv [of ref_collab get_request get_request_pkt
     "[\<lparr> o_delta = 11, o_len = 3, o_value = Some [0x74, 0x76, 0x31],
              o_option_number = 11 \<rparr>]"
     "[\<lparr> o_delta = 3, o_len = 9,
              o_value = Some [0x6c, 0x6f, 0x63, 0x61, 0x6c, 0x68, 0x6f, 0x73, 0x74],
              o_option_number = 3 \<rparr>]"
     "[0x01, 0xb3, 0x74, 0x76, 0x31]" ctx0 100]
     get_request_parses get_request_plaintext
  by (simp add: ref_collab_def [of] ctx0_def CODE_EMPTY_def TYPE_ACK_def get_request_pkt_def
        is_request_spec_def update_request_piv_request_kid_spec_def)




section \<open>The outer packet\<close>




section \<open>The empty ACK\<close>

text \<open>
  C7. For every input buffer that parses as a CoAP packet with code 0.00 and type ACK, and
  fits in the output buffer, \<open>coap2oscore\<close> returns the input bytes (so the output
  length is the input length) and the context it was given, whatever the encryption
  function is.
\<close>

theorem coap2oscore_empty_ack:
  assumes "buf2coap X buf = Inr pkt"
      and "hdr_code (header pkt) = CODE_EMPTY"
      and "hdr_type (header pkt) = TYPE_ACK"
      and "length buf \<le> cap"
  shows "coap2oscore (X \<lparr> oscore_cose_encrypt := f \<rparr>) buf cap c = (Inr buf, c) \<and>
         coap2oscore X buf cap c = (Inr buf, c)"
  using assms
  by (simp add: coap2oscore_def memcpy_s_def copy_into_whole length_fresh_array)

theorem coap2oscore_empty_ack_witness:
  "buf2coap ref_collab empty_ack =
     Inr \<lparr> header = \<lparr> hdr_ver = 1, hdr_type = 2, hdr_TKL = 0, hdr_code = 0, hdr_MID = 0x5d1f \<rparr>,
           token = [], options = [], payload = [] \<rparr> \<and>
   coap2oscore ref_collab empty_ack 100 ctx0 = (Inr empty_ack, ctx0)"
  using coap2oscore_empty_ack [of ref_collab empty_ack
     "\<lparr> header = \<lparr> hdr_ver = 1, hdr_type = 2, hdr_TKL = 0, hdr_code = 0, hdr_MID = 0x5d1f \<rparr>,
        token = [], options = [], payload = [] \<rparr>" 100 seal_stub ctx0]
  by (simp add: ref_collab_def empty_ack_def parse_eval CODE_EMPTY_def TYPE_ACK_def)

section \<open>Associated data\<close>

text \<open>
  C8. For every transcript hash \<open>thX\<close> that fits in the output buffer,
  \<open>associated_data_encode\<close> produces the CBOR serialization of the array
  \<open>["Encrypt0", h'', thX]\<close>: the array head, the text string \<open>Encrypt0\<close> without its
  terminating zero, the empty byte string and \<open>thX\<close> as a byte string.
\<close>

theorem associated_data_encode_enc_structure:
  assumes "11 + length (cbor_bstr thX) \<le> out_len"
  shows "associated_data_encode thX out_len =
           Inr (cbor_head 4 3 @ cbor_tstr (ascii ''Encrypt0'') @ cbor_bstr [] @ cbor_bstr thX) \<and>
         cbor_head 4 3 @ cbor_tstr (ascii ''Encrypt0'') @ cbor_bstr []
           = [0x83, 0x68, 0x45, 0x6e, 0x63, 0x72, 0x79, 0x70, 0x74, 0x30, 0x40]"
  using assms
  by (simp add: associated_data_encode_def context_str_strlen cose_enc_structure_encode_def
        cbor_tstr_def cbor_bstr_def cbor_head_def ascii_def)

theorem associated_data_encode_enc_structure_witness:
  "11 + length (cbor_bstr [1, 2, 3]) \<le> 64 \<and>
   associated_data_encode [1, 2, 3] 64 =
     Inr [0x83, 0x68, 0x45, 0x6e, 0x63, 0x72, 0x79, 0x70, 0x74, 0x30, 0x40, 0x43, 1, 2, 3]"
  using associated_data_encode_enc_structure [of "[1, 2, 3]" 64]
  by (simp add: cbor_tstr_def cbor_bstr_def cbor_head_def ascii_def)

section \<open>The byte length of the E options\<close>

text \<open>
  C9 (the code departs from the claim). A GET whose only option is a Uri-Path of 13 bytes:
  the split counts 14 bytes for the E option, with no extension byte for the length 13; the
  option takes 15 bytes on the wire, as the rule of section 4.1 says (one extension byte for
  a length of 13), and \<open>coap2oscore\<close> fails on this packet because the plaintext buffer
  sized from the count is one byte short.
\<close>

theorem e_options_len_uri_path_13:
  "map_sum id (inner_outer_option_split 20 is_request_spec is_class_e_spec)
       (buf2coap_spec uri_path_13) =
     Inr (Inr ([\<lparr> o_delta = 11, o_len = 13,
                   o_value = Some [0x61, 0x62, 0x63, 0x64, 0x65, 0x66, 0x67, 0x68, 0x69, 0x6a,
                                   0x6b, 0x6c, 0x6d],
                   o_option_number = 11 \<rparr>], 14, [])) \<and>
   length (serialize_option
             \<lparr> o_delta = 11, o_len = 13,
               o_value = Some [0x61, 0x62, 0x63, 0x64, 0x65, 0x66, 0x67, 0x68, 0x69, 0x6a,
                               0x6b, 0x6c, 0x6d],
               o_option_number = 11 \<rparr>) = 15 \<and>
   1 + coap_extra_bytes 11 + coap_extra_bytes 13 + 13 = 15 \<and>
   extra_bytes 13 = 0 \<and> coap_extra_bytes 13 = 1 \<and>
   extra_bytes 243 = 2 \<and> coap_extra_bytes 243 = 1 \<and>
   fst (coap2oscore ref_collab uri_path_13 100 ctx0) = Inl buffer_too_small"
  by (simp add: uri_path_13_def parse_eval split_eval pipeline_eval coap_extra_bytes_def)

section \<open>Option numbers in 8 bits\<close>

text \<open>
  C10. For every input packet, whatever its deltas sum to: the option numbers that the
  split stores in the E and U lists are the absolute option numbers reduced modulo 256, and
  an option goes to the E list or the U list (Observe to both) by the class of its reduced
  number; the deltas rebuilt in the E list, in the U list and in the options of the outer
  packet are the differences to the previous number of the same list reduced modulo 256;
  the outer packet is built as one with observe exactly when an absolute option number is
  6 modulo 256, and its code follows; and the OSCORE option stands in the outer packet after
  the leading U options whose absolute number is at most 9 modulo 256, before the first one
  whose reduced number is above 9.
\<close>

theorem option_numbers_mod_256:
  assumes "inner_outer_option_split M is_req ce pkt = Inr (E, L, U)"
      and "oscore_pkg_generate M is_req pkt U ct oo = Inr out"
  shows "map o_option_number E =
           map (\<lambda>k. of_nat (k mod 256)) (filter (goes_E ce) (abs_numbers 0 (options pkt))) \<and>
         map o_option_number U =
           map (\<lambda>k. of_nat (k mod 256)) (filter (goes_U ce) (abs_numbers 0 (options pkt))) \<and>
         map o_delta E = rebuilt_deltas 0 (map o_option_number E) \<and>
         map o_delta U = rebuilt_deltas 0 (map o_option_number U) \<and>
         map o_delta (options out) = rebuilt_deltas 0 (map o_option_number (options out)) \<and>
         is_observe U = observe_mod_256 (options pkt) \<and>
         hdr_code (header out) =
           (if is_req pkt then (if observe_mod_256 (options pkt) then 0x05 else 0x02)
            else (if observe_mod_256 (options pkt) then 0x45 else 0x44)) \<and>
         oscore_opt_pos U 0 =
           length (takeWhile (\<lambda>k. k mod 256 \<le> OSCORE)
                     (filter (goes_U ce) (abs_numbers 0 (options pkt)))) \<and>
         map o_option_number (options out) =
           map (\<lambda>k. of_nat (k mod 256))
             (takeWhile (\<lambda>k. k mod 256 \<le> OSCORE)
                (filter (goes_U ce) (abs_numbers 0 (options pkt)))) @
           [oo_option_number oo] @
           map (\<lambda>k. of_nat (k mod 256))
             (dropWhile (\<lambda>k. k mod 256 \<le> OSCORE)
                (filter (goes_U ce) (abs_numbers 0 (options pkt))))"
proof -
  define s where "s = split_loop (is_req pkt) ce (options pkt) split_init"
  define R where "R = filter (goes_U ce) (abs_numbers 0 (options pkt))"
  have fin: "E = e_opts s" "U = U_opts s"
    using assms(1) by (auto simp: inner_outer_option_split_def Let_def s_def split: if_splits)
  note nums = split_numbers [OF assms(1)]
  have "split_inv s"
    unfolding s_def by (rule split_inv_loop [OF split_inv_init])
  then have dl: "map o_delta E = rebuilt_deltas 0 (map o_option_number E)"
      "map o_delta U = rebuilt_deltas 0 (map o_option_number U)"
    by (simp_all add: split_inv_def fin)
  have room: "length U < M"
    using assms(2) by (auto simp: oscore_pkg_generate_def Let_def split: if_splits)
  have "options out = merge_loop (1 + length U) 0 (oscore_opt_pos U 0) U oo 0"
    using assms(2) by (auto simp: oscore_pkg_generate_def Let_def split: if_splits)
  then have dm: "map o_delta (options out) = rebuilt_deltas 0 (map o_option_number (options out))"
    by (simp only: merge_loop_deltas)
  note obs = split_is_observe [OF assms(1)]
  note pos = split_oscore_opt_pos [OF assms(1)]
  from pkg_generate_shape [OF room, of is_req pkt ct oo] assms(2)
  have code: "hdr_code (header out) =
                (if is_req pkt then (if is_observe U then 0x05 else 0x02)
                 else (if is_observe U then 0x45 else 0x44))"
    and lay: "map (\<lambda>e. (o_option_number e, o_len e, o_value e)) (options out) =
                map (\<lambda>e. (o_option_number e, o_len e, o_value e)) (take (oscore_opt_pos U 0) U) @
                [(oo_option_number oo, ucast (oo_len oo), oo_value oo)] @
                map (\<lambda>e. (o_option_number e, o_len e, o_value e)) (drop (oscore_opt_pos U 0) U)"
    by auto
  have "map o_option_number (options out) =
          map fst (map (\<lambda>e. (o_option_number e, o_len e, o_value e)) (options out))"
    by (simp add: comp_def)
  also have "\<dots> = take (oscore_opt_pos U 0) (map o_option_number U) @
                   [oo_option_number oo] @
                   drop (oscore_opt_pos U 0) (map o_option_number U)"
    unfolding lay by (simp add: comp_def take_map drop_map)
  also have "\<dots> = map (\<lambda>k. of_nat (k mod 256)) (takeWhile (\<lambda>k. k mod 256 \<le> OSCORE) R) @
                   [oo_option_number oo] @
                   map (\<lambda>k. of_nat (k mod 256)) (dropWhile (\<lambda>k. k mod 256 \<le> OSCORE) R)"
    unfolding nums(2) pos R_def [symmetric]
    by (simp add: take_map drop_map takeWhile_eq_take [symmetric] dropWhile_eq_drop [symmetric])
  finally have out_nums: "map o_option_number (options out) =
      map (\<lambda>k. of_nat (k mod 256)) (takeWhile (\<lambda>k. k mod 256 \<le> OSCORE) R) @
      [oo_option_number oo] @
      map (\<lambda>k. of_nat (k mod 256)) (dropWhile (\<lambda>k. k mod 256 \<le> OSCORE) R)" .
  from nums dl dm obs code pos out_nums show ?thesis
    unfolding R_def by simp
qed

text \<open>
  The request with the option numbers 3, 262 and 295: they are stored as 3, 6 and 39; the
  option 262 is handled as Observe, in both lists, and the outer code is FETCH; the OSCORE
  option is placed after it, since 6 is not above 9, and before the option stored as 39.
\<close>

theorem option_numbers_mod_256_witness:
  "inner_outer_option_split 20 is_request_spec is_class_e_spec numbers_3_262_295_pkt
     = Inr ([\<lparr> o_delta = 6, o_len = 1, o_value = Some [7], o_option_number = 6 \<rparr>], 4,
     [\<lparr> o_delta = 3, o_len = 1, o_value = Some [0x61], o_option_number = 3 \<rparr>,
      \<lparr> o_delta = 3, o_len = 1, o_value = Some [7], o_option_number = 6 \<rparr>,
      \<lparr> o_delta = 33, o_len = 1, o_value = Some [0x62], o_option_number = 39 \<rparr>]) \<and>
   oscore_pkg_generate 20 is_request_spec numbers_3_262_295_pkt
     [\<lparr> o_delta = 3, o_len = 1, o_value = Some [0x61], o_option_number = 3 \<rparr>,
      \<lparr> o_delta = 3, o_len = 1, o_value = Some [7], o_option_number = 6 \<rparr>,
      \<lparr> o_delta = 33, o_len = 1, o_value = Some [0x62], o_option_number = 39 \<rparr>]
     [0xaa] \<lparr> oo_len = 2, oo_value = Some [0x09, 0x14], oo_option_number = 9 \<rparr>
     = Inr \<lparr> header = \<lparr> hdr_ver = 1, hdr_type = 0, hdr_TKL = 0, hdr_code = 0x05,
                          hdr_MID = 0x5d1f \<rparr>,
              token = [],
              options = [\<lparr> o_delta = 3, o_len = 1, o_value = Some [0x61], o_option_number = 3 \<rparr>,
                         \<lparr> o_delta = 3, o_len = 1, o_value = Some [7], o_option_number = 6 \<rparr>,
                         \<lparr> o_delta = 3, o_len = 2, o_value = Some [0x09, 0x14],
                           o_option_number = 9 \<rparr>,
                         \<lparr> o_delta = 30, o_len = 1, o_value = Some [0x62],
                           o_option_number = 39 \<rparr>],
              payload = [0xaa] \<rparr> \<and>
   abs_numbers 0 (options numbers_3_262_295_pkt) = [3, 262, 295] \<and>
   filter (goes_E is_class_e_spec) [3, 262, 295] = [262] \<and>
   filter (goes_U is_class_e_spec) [3, 262, 295] = [3, 262, 295] \<and>
   map o_option_number [\<lparr> o_delta = 6, o_len = 1, o_value = Some [7], o_option_number = 6 \<rparr>]
     = map (\<lambda>k. of_nat (k mod 256)) [262] \<and>
   map o_option_number
     [\<lparr> o_delta = 3, o_len = 1, o_value = Some [0x61], o_option_number = 3 \<rparr>,
      \<lparr> o_delta = 3, o_len = 1, o_value = Some [7], o_option_number = 6 \<rparr>,
      \<lparr> o_delta = 33, o_len = 1, o_value = Some [0x62], o_option_number = 39 \<rparr>]
     = map (\<lambda>k. of_nat (k mod 256)) [3, 262, 295] \<and>
   observe_mod_256 (options numbers_3_262_295_pkt) \<and>
   oscore_opt_pos
     [\<lparr> o_delta = 3, o_len = 1, o_value = Some [0x61], o_option_number = 3 \<rparr>,
      \<lparr> o_delta = 3, o_len = 1, o_value = Some [7], o_option_number = 6 \<rparr>,
      \<lparr> o_delta = 33, o_len = 1, o_value = Some [0x62], o_option_number = 39 \<rparr>] 0 = 2 \<and>
   takeWhile (\<lambda>k. k mod 256 \<le> OSCORE) [3, 262, 295] = [3, 262] \<and>
   dropWhile (\<lambda>k. k mod 256 \<le> OSCORE) [3, 262, 295] = [295] \<and>
   map o_option_number (options
     \<lparr> header = \<lparr> hdr_ver = 1, hdr_type = 0, hdr_TKL = 0, hdr_code = 0x05,
                          hdr_MID = 0x5d1f \<rparr>,
              token = [],
              options = [\<lparr> o_delta = 3, o_len = 1, o_value = Some [0x61], o_option_number = 3 \<rparr>,
                         \<lparr> o_delta = 3, o_len = 1, o_value = Some [7], o_option_number = 6 \<rparr>,
                         \<lparr> o_delta = 3, o_len = 2, o_value = Some [0x09, 0x14],
                           o_option_number = 9 \<rparr>,
                         \<lparr> o_delta = 30, o_len = 1, o_value = Some [0x62],
                           o_option_number = 39 \<rparr>],
              payload = [0xaa] \<rparr>)
     = map (\<lambda>k. of_nat (k mod 256)) [3, 262] @ [9] @ map (\<lambda>k. of_nat (k mod 256)) [295] \<and>
   map o_option_number (options
     \<lparr> header = \<lparr> hdr_ver = 1, hdr_type = 0, hdr_TKL = 0, hdr_code = 0x05,
                          hdr_MID = 0x5d1f \<rparr>,
              token = [],
              options = [\<lparr> o_delta = 3, o_len = 1, o_value = Some [0x61], o_option_number = 3 \<rparr>,
                         \<lparr> o_delta = 3, o_len = 1, o_value = Some [7], o_option_number = 6 \<rparr>,
                         \<lparr> o_delta = 3, o_len = 2, o_value = Some [0x09, 0x14],
                           o_option_number = 9 \<rparr>,
                         \<lparr> o_delta = 30, o_len = 1, o_value = Some [0x62],
                           o_option_number = 39 \<rparr>],
              payload = [0xaa] \<rparr>)
     = [3, 6, 9, 39]"
  using option_numbers_mod_256 [of 20 is_request_spec is_class_e_spec numbers_3_262_295_pkt
     "[\<lparr> o_delta = 6, o_len = 1, o_value = Some [7], o_option_number = 6 \<rparr>]" 4
     "[\<lparr> o_delta = 3, o_len = 1, o_value = Some [0x61], o_option_number = 3 \<rparr>,
      \<lparr> o_delta = 3, o_len = 1, o_value = Some [7], o_option_number = 6 \<rparr>,
      \<lparr> o_delta = 33, o_len = 1, o_value = Some [0x62], o_option_number = 39 \<rparr>]"
     "[0xaa]" "\<lparr> oo_len = 2, oo_value = Some [0x09, 0x14], oo_option_number = 9 \<rparr>"
     "\<lparr> header = \<lparr> hdr_ver = 1, hdr_type = 0, hdr_TKL = 0, hdr_code = 0x05,
                          hdr_MID = 0x5d1f \<rparr>,
              token = [],
              options = [\<lparr> o_delta = 3, o_len = 1, o_value = Some [0x61], o_option_number = 3 \<rparr>,
                         \<lparr> o_delta = 3, o_len = 1, o_value = Some [7], o_option_number = 6 \<rparr>,
                         \<lparr> o_delta = 3, o_len = 2, o_value = Some [0x09, 0x14],
                           o_option_number = 9 \<rparr>,
                         \<lparr> o_delta = 30, o_len = 1, o_value = Some [0x62],
                           o_option_number = 39 \<rparr>],
              payload = [0xaa] \<rparr>"]
  by (simp add: numbers_3_262_295_pkt_def split_eval oscore_pkg_generate_def is_observe_def
        OSCORE_def CODE_REQ_FETCH_def goes_E_def goes_U_def observe_mod_256_def OBSERVE_def
        word_less_nat_alt is_request_spec_def is_class_e_spec_def)

end
